theory Spec2Isabelle
  imports Complex_Main "HOL-Library.Word"
begin

section \<open>Go values used by main.go\<close>

text \<open>
  The program is built for linux/amd64 (both Dockerfiles pass \<^verbatim>\<open>GOARCH=amd64\<close>), so Go's
  \<^verbatim>\<open>int\<close> and \<^verbatim>\<open>int64\<close> are both 64-bit two's complement integers: \<open>+\<close> wraps, \<open>%d\<close> prints
  \<open>sint\<close>. A \<^verbatim>\<open>string\<close> is a sequence of bytes, here a \<open>char list\<close>. A \<^verbatim>\<open>rune\<close> is a
  Unicode code point; only comparisons of code points occur, so it is an \<open>int\<close>.
\<close>

type_synonym int64 = "64 word"
type_synonym go_int = "64 word"
type_synonym rune = int

abbreviation rune_of :: "char \<Rightarrow> rune" where
  "rune_of c \<equiv> of_char c"

text \<open>
  \<^verbatim>\<open>float64\<close> is kept abstract: a type \<open>'f\<close> with the operations main.go applies to it.
  Nothing is assumed about them (no associativity of \<open>+\<close>, no reflexivity of \<open><=\<close>), so
  every theorem holds for IEEE 754 binary64 in particular.
\<close>

record 'f float64_ops =
  f_zero :: 'f                            \<comment> \<open>the zero value of \<^verbatim>\<open>var sum float64\<close>\<close>
  f_add :: "'f \<Rightarrow> 'f \<Rightarrow> 'f"             \<comment> \<open>\<^verbatim>\<open>sum += d\<close>\<close>
  f_le :: "'f \<Rightarrow> 'f \<Rightarrow> bool"            \<comment> \<open>\<^verbatim>\<open>d <= b\<close>\<close>
  f_const :: "real \<Rightarrow> 'f"                \<comment> \<open>a decimal constant of the source as a float64\<close>
  Seconds :: "int64 \<Rightarrow> 'f"               \<comment> \<open>\<^verbatim>\<open>time.Duration.Seconds\<close>, from nanoseconds\<close>

text \<open>
  One instance, used to evaluate the model on examples: a float64 read as the real number
  it denotes, with exact arithmetic.
\<close>

definition exact_float64 :: "real float64_ops" where
  "exact_float64 =
     \<lparr>f_zero = 0, f_add = (+), f_le = (\<le>), f_const = (\<lambda>x. x),
      Seconds = (\<lambda>d. real_of_int (sint d) / 1000000000)\<rparr>"

subsection \<open>UTF-8 decoding and strings.Map\<close>

text \<open>
  \<^verbatim>\<open>strings.Map\<close> ranges over the runes of its argument. Ranging over a string decodes
  UTF-8 as \<^verbatim>\<open>utf8.DecodeRuneInString\<close> does: a byte that does not start a well-formed
  encoding yields \<^verbatim>\<open>RuneError\<close> (U+FFFD) and advances one byte. The result of the mapping
  is encoded as \<^verbatim>\<open>utf8.AppendRune\<close> does, and a negative result drops the rune.
\<close>

definition RuneError :: rune where
  "RuneError = 65533"

fun DecodeRuneInString :: "string \<Rightarrow> rune \<times> nat" where
  "DecodeRuneInString [] = (RuneError, 0)"
| "DecodeRuneInString (c0 # rest) =
     (let s0 = rune_of c0 in
      if s0 < 128 then (s0, 1)
      else if s0 < 194 \<or> 244 < s0 then (RuneError, 1)
      else
        let sz = (if s0 < 224 then 2 else if s0 < 240 then 3 else 4 :: nat);
            lo = (if s0 = 224 then 160 else if s0 = 240 then 144 else 128);
            hi = (if s0 = 237 then 159 else if s0 = 244 then 143 else 191)
        in
        if Suc (length rest) < sz then (RuneError, 1)
        else
          let s1 = rune_of (rest ! 0) in
          if s1 < lo \<or> hi < s1 then (RuneError, 1)
          else if sz \<le> 2 then ((s0 mod 32) * 64 + s1 mod 64, 2)
          else
            let s2 = rune_of (rest ! 1) in
            if s2 < 128 \<or> 191 < s2 then (RuneError, 1)
            else if sz \<le> 3 then ((s0 mod 16) * 4096 + (s1 mod 64) * 64 + s2 mod 64, 3)
            else
              let s3 = rune_of (rest ! 2) in
              if s3 < 128 \<or> 191 < s3 then (RuneError, 1)
              else ((s0 mod 8) * 262144 + (s1 mod 64) * 4096 + (s2 mod 64) * 64 + s3 mod 64, 4))"

definition AppendRune :: "rune \<Rightarrow> string" where
  "AppendRune r =
     (if 0 \<le> r \<and> r < 128 then [char_of r]
      else if 0 \<le> r \<and> r < 2048 then [char_of (192 + r div 64), char_of (128 + r mod 64)]
      else if r < 0 \<or> 1114111 < r \<or> (55296 \<le> r \<and> r \<le> 57343) then
        [char_of (239 :: int), char_of (191 :: int), char_of (189 :: int)]
      else if r < 65536 then
        [char_of (224 + r div 4096), char_of (128 + (r div 64) mod 64), char_of (128 + r mod 64)]
      else
        [char_of (240 + r div 262144), char_of (128 + (r div 4096) mod 64),
         char_of (128 + (r div 64) mod 64), char_of (128 + r mod 64)])"

fun strings_Map :: "(rune \<Rightarrow> rune) \<Rightarrow> string \<Rightarrow> string" where
  "strings_Map mapping [] = []"
| "strings_Map mapping (b # bs) =
     (let (c, width) = DecodeRuneInString (b # bs); r = mapping c in
      (if 0 \<le> r then AppendRune r else []) @ strings_Map mapping (drop (width - 1) bs))"

text \<open>The runes a range loop over the string visits.\<close>

fun runes :: "string \<Rightarrow> rune list" where
  "runes [] = []"
| "runes (b # bs) =
     (let (c, width) = DecodeRuneInString (b # bs) in c # runes (drop (width - 1) bs))"

subsection \<open>Printing integers with \%d\<close>

fun decimal :: "nat \<Rightarrow> string" where
  "decimal n = (if n < 10 then [char_of (48 + n)] else decimal (n div 10) @ [char_of (48 + n mod 10)])"

definition fmt_d :: "64 word \<Rightarrow> string" where
  "fmt_d w = (if sint w < 0 then ''-'' @ decimal (nat (- sint w)) else decimal (nat (sint w)))"

section \<open>Metrics\<close>

record 'f Metrics =
  totalRequests :: "string \<rightharpoonup> int64"
  statusCodes :: "string \<rightharpoonup> (go_int \<rightharpoonup> int64)"
  requestDurations :: "string \<rightharpoonup> 'f list"
  appStartTimestamp :: int64

text \<open>\<^verbatim>\<open>NewMetrics\<close>; the argument is the reading of \<^verbatim>\<open>time.Now().Unix()\<close>.\<close>

definition NewMetrics :: "int64 \<Rightarrow> 'f Metrics" where
  "NewMetrics now =
     \<lparr>totalRequests = Map.empty, statusCodes = Map.empty, requestDurations = Map.empty,
      appStartTimestamp = now\<rparr>"

text \<open>Reading a Go map at a key it does not hold gives the zero value of the element type.\<close>

definition counter :: "('k \<rightharpoonup> int64) \<Rightarrow> 'k \<Rightarrow> int64" where
  "counter m k = (case m k of None \<Rightarrow> 0 | Some v \<Rightarrow> v)"

definition codes_of :: "(string \<rightharpoonup> (go_int \<rightharpoonup> int64)) \<Rightarrow> string \<Rightarrow> (go_int \<rightharpoonup> int64)" where
  "codes_of m k = (case m k of None \<Rightarrow> Map.empty | Some codes \<Rightarrow> codes)"

definition durations_of :: "(string \<rightharpoonup> 'f list) \<Rightarrow> string \<Rightarrow> 'f list" where
  "durations_of m k = (case m k of None \<Rightarrow> [] | Some ds \<Rightarrow> ds)"

text \<open>The function literal passed to \<^verbatim>\<open>strings.Map\<close> in \<^verbatim>\<open>RecordRequest\<close>.\<close>

definition clean_rune :: "rune \<Rightarrow> rune" where
  "clean_rune r =
     (if (rune_of CHR ''a'' \<le> r \<and> r \<le> rune_of CHR ''z'')
         \<or> (rune_of CHR ''A'' \<le> r \<and> r \<le> rune_of CHR ''Z'')
         \<or> (rune_of CHR ''0'' \<le> r \<and> r \<le> rune_of CHR ''9'' \<or> r = rune_of CHR ''/'')
      then r else rune_of CHR ''_'')"

text \<open>The value of the local variable \<^verbatim>\<open>cleanPath\<close> when the counters are updated.\<close>

definition cleanPath :: "string \<Rightarrow> string" where
  "cleanPath path =
     (let cp = strings_Map clean_rune path in
      if cp = [] \<or> cp ! 0 = CHR ''_'' then ''root'' @ cp else cp)"

text \<open>
  The characters a key keeps, in the words of the specification: ASCII letters, digits
  and the slash.
\<close>

definition allowed :: "rune \<Rightarrow> bool" where
  "allowed r =
     (r \<in> rune_of ` set ''abcdefghijklmnopqrstuvwxyzABCDEFGHIJKLMNOPQRSTUVWXYZ0123456789/'')"

text \<open>A byte that \<^verbatim>\<open>strings.Map\<close> with \<open>clean_rune\<close> leaves as it is.\<close>

definition key_byte :: "char \<Rightarrow> bool" where
  "key_byte b = (rune_of b < 128 \<and> clean_rune (rune_of b) = rune_of b)"

text \<open>The line \<^verbatim>\<open>RecordRequest\<close> prints on standard output.\<close>

definition RecordRequest_print :: "string \<Rightarrow> string" where
  "RecordRequest_print path =
     ''Path: '' @ path @ '' : '' @ strings_Map clean_rune path @ ''\<newline>''"

text \<open>
  \<^verbatim>\<open>RecordRequest\<close> as a transformer of the metrics; the mutex makes the whole body one
  step with respect to every other use of the metrics.
\<close>

definition RecordRequest ::
  "'f float64_ops \<Rightarrow> 'f Metrics \<Rightarrow> string \<Rightarrow> go_int \<Rightarrow> int64 \<Rightarrow> 'f Metrics" where
  "RecordRequest ops m path statusCode duration =
     (let cp = cleanPath path;
          m1 = m\<lparr>totalRequests := (totalRequests m)(cp \<mapsto> counter (totalRequests m) cp + 1)\<rparr>;
          m2 = (if statusCodes m1 cp = None
                then m1\<lparr>statusCodes := (statusCodes m1)(cp \<mapsto> Map.empty)\<rparr> else m1);
          codes = codes_of (statusCodes m2) cp;
          m3 = m2\<lparr>statusCodes :=
                 (statusCodes m2)(cp \<mapsto> codes(statusCode \<mapsto> counter codes statusCode + 1))\<rparr>
      in m3\<lparr>requestDurations :=
             (requestDurations m3)(cp \<mapsto> durations_of (requestDurations m3) cp @ [Seconds ops duration])\<rparr>)"

text \<open>A run of the aggregator: \<^verbatim>\<open>NewMetrics\<close>, then one \<^verbatim>\<open>RecordRequest\<close> per element.\<close>

definition record_all ::
  "'f float64_ops \<Rightarrow> int64 \<Rightarrow> (string \<times> go_int \<times> int64) list \<Rightarrow> 'f Metrics" where
  "record_all ops now calls =
     foldl (\<lambda>m (path, statusCode, duration). RecordRequest ops m path statusCode duration)
       (NewMetrics now) calls"

subsection \<open>Rendering\<close>

text \<open>
  One constructor per \<^verbatim>\<open>Sprintf\<close> format of \<^verbatim>\<open>GetPrometheusMetrics\<close>, holding its arguments;
  \<open>Literal\<close> is a line written as it stands. \<open>DurationBucket\<close> with \<open>None\<close> is the
  \<^verbatim>\<open>le="+Inf"\<close> line.
\<close>

datatype 'f line =
    Literal string
  | AppInfo string
  | UptimeSeconds int64
  | RequestsTotal string int64
  | ResponseStatusTotal string go_int int64
  | DurationBucket string "'f option" go_int
  | DurationSum string 'f
  | DurationCount string go_int

text \<open>
  Go visits the entries of a map once each, in an order it does not specify and that may
  differ between two loops. The orders of the four kinds of loops of one rendering are
  inputs of the model.
\<close>

record range_order =
  range_totalRequests :: "string list"
  range_statusCodes :: "string list"
  range_codes :: "string \<Rightarrow> go_int list"
  range_requestDurations :: "string list"

definition visits :: "('k \<rightharpoonup> 'v) \<Rightarrow> 'k list \<Rightarrow> bool" where
  "visits m ks = (distinct ks \<and> set ks = dom m)"

definition range_valid :: "range_order \<Rightarrow> 'f Metrics \<Rightarrow> bool" where
  "range_valid ord m =
     (visits (totalRequests m) (range_totalRequests ord)
      \<and> visits (statusCodes m) (range_statusCodes ord)
      \<and> list_all (\<lambda>path. visits (codes_of (statusCodes m) path) (range_codes ord path))
           (range_statusCodes ord)
      \<and> visits (requestDurations m) (range_requestDurations ord))"

definition buckets :: "'f float64_ops \<Rightarrow> 'f list" where
  "buckets ops = map (f_const ops) [0.005, 0.01, 0.025, 0.05, 0.1, 0.25, 0.5, 1, 2.5, 5, 10]"

text \<open>The body of the loop over one path's durations, on \<^verbatim>\<open>bucketCounts\<close> and \<^verbatim>\<open>sum\<close>.\<close>

definition observe :: "'f float64_ops \<Rightarrow> go_int list \<times> 'f \<Rightarrow> 'f \<Rightarrow> go_int list \<times> 'f" where
  "observe ops acc d =
     (let (bucketCounts, sum) = acc;
          sum' = f_add ops sum d;
          counted = fold (\<lambda>(i, b) bc. if f_le ops d b then bc[i := bc ! i + 1] else bc)
                      (enumerate 0 (buckets ops)) bucketCounts;
          n = length (buckets ops)
      in (counted[n := counted ! n + 1], sum'))"

definition histogram :: "'f float64_ops \<Rightarrow> 'f list \<Rightarrow> go_int list \<times> 'f" where
  "histogram ops durations =
     foldl (observe ops) (replicate (length (buckets ops) + 1) 0, f_zero ops) durations"

definition histogram_lines :: "'f float64_ops \<Rightarrow> string \<Rightarrow> 'f list \<Rightarrow> 'f line list" where
  "histogram_lines ops path durations =
     (let (bucketCounts, sum) = histogram ops durations in
      map (\<lambda>(i, b). DurationBucket path (Some b) (bucketCounts ! i)) (enumerate 0 (buckets ops))
      @ [DurationBucket path None (bucketCounts ! length (buckets ops)),
         DurationSum path sum,
         DurationCount path (of_nat (length durations))])"

definition GetPrometheusMetrics_lines ::
  "'f float64_ops \<Rightarrow> string \<Rightarrow> int64 \<Rightarrow> range_order \<Rightarrow> 'f Metrics \<Rightarrow> 'f line list" where
  "GetPrometheusMetrics_lines ops version now ord m =
     [Literal ''# HELP app_info Information about the application'',
      Literal ''# TYPE app_info gauge'',
      AppInfo version,
      Literal '''',
      Literal ''# HELP app_uptime_seconds How long the application has been running'',
      Literal ''# TYPE app_uptime_seconds counter'',
      UptimeSeconds (now - appStartTimestamp m),
      Literal '''',
      Literal ''# HELP http_requests_total Total number of HTTP requests'',
      Literal ''# TYPE http_requests_total counter'']
     @ concat (map (\<lambda>path. case totalRequests m path of
                             None \<Rightarrow> [] | Some count \<Rightarrow> [RequestsTotal path count])
                 (range_totalRequests ord))
     @ [Literal '''',
        Literal ''# HELP http_response_status_total HTTP response status codes'',
        Literal ''# TYPE http_response_status_total counter'']
     @ concat (map (\<lambda>path. case statusCodes m path of
                             None \<Rightarrow> []
                           | Some codes \<Rightarrow>
                               concat (map (\<lambda>code. case codes code of
                                                      None \<Rightarrow> []
                                                    | Some count \<Rightarrow>
                                                        [ResponseStatusTotal path code count])
                                         (range_codes ord path)))
                 (range_statusCodes ord))
     @ [Literal '''',
        Literal ''# HELP http_request_duration_seconds HTTP request duration in seconds'',
        Literal ''# TYPE http_request_duration_seconds histogram'']
     @ concat (map (\<lambda>path. case requestDurations m path of
                             None \<Rightarrow> [] | Some durations \<Rightarrow> histogram_lines ops path durations)
                 (range_requestDurations ord))"

text \<open>The text of a line; \<open>fmt_g\<close> prints a float64 with \<^verbatim>\<open>%g\<close>.\<close>

fun show_line :: "('f \<Rightarrow> string) \<Rightarrow> 'f line \<Rightarrow> string" where
  \<open>show_line fmt_g (Literal s) = s @ ''\<newline>''\<close>
| \<open>show_line fmt_g (AppInfo v) = ''app_info{version="'' @ v @ ''"} 1\<newline>''\<close>
| \<open>show_line fmt_g (UptimeSeconds n) = ''app_uptime_seconds '' @ fmt_d n @ ''\<newline>''\<close>
| \<open>show_line fmt_g (RequestsTotal path count) =
     ''http_requests_total{path="'' @ path @ ''"} '' @ fmt_d count @ ''\<newline>''\<close>
| \<open>show_line fmt_g (ResponseStatusTotal path code count) =
     ''http_response_status_total{path="'' @ path @ ''",code="'' @ fmt_d code @ ''"} ''
       @ fmt_d count @ ''\<newline>''\<close>
| \<open>show_line fmt_g (DurationBucket path le count) =
     ''http_request_duration_seconds_bucket{path="'' @ path @ ''",le="''
       @ (case le of None \<Rightarrow> ''+Inf'' | Some b \<Rightarrow> fmt_g b) @ ''"} '' @ fmt_d count @ ''\<newline>''\<close>
| \<open>show_line fmt_g (DurationSum path v) =
     ''http_request_duration_seconds_sum{path="'' @ path @ ''"} '' @ fmt_g v @ ''\<newline>''\<close>
| \<open>show_line fmt_g (DurationCount path count) =
     ''http_request_duration_seconds_count{path="'' @ path @ ''"} '' @ fmt_d count @ ''\<newline>''\<close>

definition GetPrometheusMetrics ::
  "'f float64_ops \<Rightarrow> ('f \<Rightarrow> string) \<Rightarrow> string \<Rightarrow> int64 \<Rightarrow> range_order \<Rightarrow> 'f Metrics \<Rightarrow> string" where
  "GetPrometheusMetrics ops fmt_g version now ord m =
     concat (map (show_line fmt_g) (GetPrometheusMetrics_lines ops version now ord m))"

text \<open>The three loops over the maps, as the parts of the rendering they produce.\<close>

definition total_part :: "range_order \<Rightarrow> 'f Metrics \<Rightarrow> 'f line list" where
  "total_part ord m =
     concat (map (\<lambda>path. case totalRequests m path of
                             None \<Rightarrow> [] | Some count \<Rightarrow> [RequestsTotal path count])
                 (range_totalRequests ord))"

definition status_part :: "range_order \<Rightarrow> 'f Metrics \<Rightarrow> 'f line list" where
  "status_part ord m =
     concat (map (\<lambda>path. case statusCodes m path of
                             None \<Rightarrow> []
                           | Some codes \<Rightarrow>
                               concat (map (\<lambda>code. case codes code of
                                                      None \<Rightarrow> []
                                                    | Some count \<Rightarrow>
                                                        [ResponseStatusTotal path code count])
                                         (range_codes ord path)))
                 (range_statusCodes ord))"

definition histogram_part :: "'f float64_ops \<Rightarrow> range_order \<Rightarrow> 'f Metrics \<Rightarrow> 'f line list" where
  "histogram_part ops ord m =
     concat (map (\<lambda>path. case requestDurations m path of
                             None \<Rightarrow> [] | Some durations \<Rightarrow> histogram_lines ops path durations)
                 (range_requestDurations ord))"

subsection \<open>Reading a rendering\<close>

text \<open>
  The values a rendering shows for one path key: the \<^verbatim>\<open>http_requests_total\<close> line, the
  \<^verbatim>\<open>http_response_status_total\<close> line of a status code, and the \<^verbatim>\<open>+Inf\<close> bucket, the sum
  and the count of the histogram. Each is the list of the values of the matching lines, in
  the order of the rendering.
\<close>

fun total_at :: "string \<Rightarrow> 'f line \<Rightarrow> int64 list" where
  "total_at k (RequestsTotal path v) = (if path = k then [v] else [])"
| "total_at k _ = []"

fun status_at :: "string \<Rightarrow> go_int \<Rightarrow> 'f line \<Rightarrow> int64 list" where
  "status_at k c (ResponseStatusTotal path code v) = (if path = k \<and> code = c then [v] else [])"
| "status_at k c _ = []"

fun inf_bucket_at :: "string \<Rightarrow> 'f line \<Rightarrow> go_int list" where
  "inf_bucket_at k (DurationBucket path None v) = (if path = k then [v] else [])"
| "inf_bucket_at k _ = []"

fun sum_at :: "string \<Rightarrow> 'f line \<Rightarrow> 'f list" where
  "sum_at k (DurationSum path v) = (if path = k then [v] else [])"
| "sum_at k _ = []"

fun count_at :: "string \<Rightarrow> 'f line \<Rightarrow> go_int list" where
  "count_at k (DurationCount path v) = (if path = k then [v] else [])"
| "count_at k _ = []"

definition requests_total_of :: "'f line list \<Rightarrow> string \<Rightarrow> int64 list" where
  "requests_total_of ls k = concat (map (total_at k) ls)"

definition response_status_of :: "'f line list \<Rightarrow> string \<Rightarrow> go_int \<Rightarrow> int64 list" where
  "response_status_of ls k c = concat (map (status_at k c) ls)"

definition inf_bucket_of :: "'f line list \<Rightarrow> string \<Rightarrow> go_int list" where
  "inf_bucket_of ls k = concat (map (inf_bucket_at k) ls)"

definition duration_sum_of :: "'f line list \<Rightarrow> string \<Rightarrow> 'f list" where
  "duration_sum_of ls k = concat (map (sum_at k) ls)"

definition duration_count_of :: "'f line list \<Rightarrow> string \<Rightarrow> go_int list" where
  "duration_count_of ls k = concat (map (count_at k) ls)"

text \<open>A counter with no line reads as 0, a sum with no line as the zero of float64.\<close>

definition shown :: "64 word list \<Rightarrow> 64 word" where
  "shown vs = (case vs of [] \<Rightarrow> 0 | v # _ \<Rightarrow> v)"

definition shown_sum :: "'f float64_ops \<Rightarrow> 'f list \<Rightarrow> 'f" where
  "shown_sum ops vs = (case vs of [] \<Rightarrow> f_zero ops | v # _ \<Rightarrow> v)"

subsection \<open>Consistency of the three maps\<close>

definition sum_codes :: "(go_int \<rightharpoonup> int64) \<Rightarrow> int64" where
  "sum_codes codes = (\<Sum>c \<in> dom codes. counter codes c)"

definition consistent :: "'f Metrics \<Rightarrow> string \<Rightarrow> bool" where
  "consistent m k =
     (finite (dom (codes_of (statusCodes m) k))
      \<and> counter (totalRequests m) k = sum_codes (codes_of (statusCodes m) k)
      \<and> counter (totalRequests m) k = of_nat (length (durations_of (requestDurations m) k)))"

section \<open>The HTTP side\<close>

subsection \<open>Calls that may panic\<close>

text \<open>
  A call either returns or panics. A panic carries its message, and the state as it is at
  that moment: what the code assigned before the panic stays assigned.
\<close>

datatype 'a outcome =
    Returned (state: 'a)
  | Panicked (panic: string) (state: 'a)

subsection \<open>The response sink of net/http\<close>

text \<open>
  What a handler can observe of the \<^verbatim>\<open>http.ResponseWriter\<close> the server passes in: the header
  map returned by \<^verbatim>\<open>Header()\<close>, the informational (1xx) responses sent so far, the final
  status line together with the headers as they stood when it was sent, and the body bytes
  the handler has written. \<^verbatim>\<open>WriteHeader\<close> of the sink, in the order of net/http: once a
  final status is sent, a further call is ignored (net/http logs a superfluous call);
  otherwise a code below 100 or above 999 panics; otherwise a 1xx code other than 101 is
  sent at once as an informational response, and the final status is still to come;
  otherwise the code is the final status. A \<^verbatim>\<open>Write\<close> before any final status sends status
  200 first. Headers the server adds on its own when it sends (the date, a content length,
  a sniffed content type) are outside the model, and so is what of the written body
  reaches the wire (none of it for a HEAD request).
\<close>

type_synonym Header = "string \<rightharpoonup> string list"

definition StatusOK :: go_int where
  "StatusOK = 200"

definition StatusSwitchingProtocols :: go_int where
  "StatusSwitchingProtocols = 101"

definition StatusNotFound :: go_int where
  "StatusNotFound = 404"

definition StatusInternalServerError :: go_int where
  "StatusInternalServerError = 500"

definition StatusServiceUnavailable :: go_int where
  "StatusServiceUnavailable = 503"

record response =
  hdr :: Header
  sent_1xx :: "(go_int \<times> Header) list"
  sent :: "(go_int \<times> Header) option"
  body :: string

definition new_response :: response where
  "new_response = \<lparr>hdr = Map.empty, sent_1xx = [], sent = None, body = []\<rparr>"

text \<open>\<^verbatim>\<open>checkWriteHeaderCode\<close> of net/http panics on these codes.\<close>

definition invalid_code :: "go_int \<Rightarrow> bool" where
  "invalid_code code = (sint code < 100 \<or> 999 < sint code)"

definition informational :: "go_int \<Rightarrow> bool" where
  "informational code =
     (100 \<le> sint code \<and> sint code \<le> 199 \<and> code \<noteq> StatusSwitchingProtocols)"

text \<open>The codes the sink sends as the final status of the response.\<close>

definition final_code :: "go_int \<Rightarrow> bool" where
  "final_code code = (\<not> invalid_code code \<and> \<not> informational code)"

definition response_WriteHeader :: "response \<Rightarrow> go_int \<Rightarrow> response outcome" where
  "response_WriteHeader w code =
     (case sent w of
        Some _ \<Rightarrow> Returned w
      | None \<Rightarrow>
          if invalid_code code then Panicked (''invalid WriteHeader code '' @ fmt_d code) w
          else if informational code then Returned (w\<lparr>sent_1xx := sent_1xx w @ [(code, hdr w)]\<rparr>)
          else Returned (w\<lparr>sent := Some (code, hdr w)\<rparr>))"

definition response_Write :: "response \<Rightarrow> string \<Rightarrow> response" where
  "response_Write w bytes =
     (let w' = (case sent w of None \<Rightarrow> state (response_WriteHeader w StatusOK) | Some _ \<Rightarrow> w)
      in w'\<lparr>body := body w' @ bytes\<rparr>)"

text \<open>
  \<^verbatim>\<open>Header.Set\<close>, \<^verbatim>\<open>Header.Add\<close> and \<^verbatim>\<open>Header.Del\<close>, on keys that are already in canonical
  form (the literal keys of main.go are, and so are the keys of a parsed response or
  request).
\<close>

definition Header_Set :: "Header \<Rightarrow> string \<Rightarrow> string \<Rightarrow> Header" where
  "Header_Set h name v = h(name \<mapsto> [v])"

definition Header_Add :: "Header \<Rightarrow> string \<Rightarrow> string \<Rightarrow> Header" where
  "Header_Add h name v = h(name \<mapsto> (case h name of None \<Rightarrow> [] | Some vs \<Rightarrow> vs) @ [v])"

definition Header_Del :: "Header \<Rightarrow> string \<Rightarrow> Header" where
  "Header_Del h name = h(name := None)"

text \<open>The loops that copy every value of every entry of one header map onto another.\<close>

definition Add_all :: "(string \<times> string list) list \<Rightarrow> Header \<Rightarrow> Header" where
  "Add_all entries h =
     fold (\<lambda>(name, values) h. fold (\<lambda>v h. Header_Add h name v) values h) entries h"

definition values_for :: "(string \<times> string list) list \<Rightarrow> string \<Rightarrow> string list" where
  "values_for entries name = concat (map (\<lambda>(n, values). if n = name then values else []) entries)"

subsection \<open>responseWriter\<close>

record responseWriter =
  ResponseWriter :: response
  statusCode :: go_int

text \<open>
  \<^verbatim>\<open>WriteHeader\<close> of the wrapper: the assignment to \<open>statusCode\<close> comes first, so it has
  happened when the call to the sink panics.
\<close>

definition WriteHeader :: "responseWriter \<Rightarrow> go_int \<Rightarrow> responseWriter outcome" where
  "WriteHeader rw code =
     (let rw' = rw\<lparr>statusCode := code\<rparr>
      in map_outcome (\<lambda>w. rw'\<lparr>ResponseWriter := w\<rparr>)
           (response_WriteHeader (ResponseWriter rw') code))"

text \<open>The methods promoted from the embedded \<^verbatim>\<open>http.ResponseWriter\<close>.\<close>

definition Write :: "responseWriter \<Rightarrow> string \<Rightarrow> responseWriter" where
  "Write rw bytes = rw\<lparr>ResponseWriter := response_Write (ResponseWriter rw) bytes\<rparr>"

definition rw_Header_Set :: "responseWriter \<Rightarrow> string \<Rightarrow> string \<Rightarrow> responseWriter" where
  "rw_Header_Set rw name v =
     rw\<lparr>ResponseWriter := (ResponseWriter rw)\<lparr>hdr := Header_Set (hdr (ResponseWriter rw)) name v\<rparr>\<rparr>"

definition rw_Header_Add :: "responseWriter \<Rightarrow> string \<Rightarrow> string \<Rightarrow> responseWriter" where
  "rw_Header_Add rw name v =
     rw\<lparr>ResponseWriter := (ResponseWriter rw)\<lparr>hdr := Header_Add (hdr (ResponseWriter rw)) name v\<rparr>\<rparr>"

definition rw_Header_Del :: "responseWriter \<Rightarrow> string \<Rightarrow> responseWriter" where
  "rw_Header_Del rw name =
     rw\<lparr>ResponseWriter := (ResponseWriter rw)\<lparr>hdr := Header_Del (hdr (ResponseWriter rw)) name\<rparr>\<rparr>"

text \<open>The wrapper \<^verbatim>\<open>AccessLogMiddleware\<close> builds around the server's sink.\<close>

definition wrap :: "response \<Rightarrow> responseWriter" where
  "wrap w = \<lparr>ResponseWriter = w, statusCode = StatusOK\<rparr>"

text \<open>
  What a handler can do to the wrapper, and a handler's run as the list of the calls it
  would make one after the other. The run ends at the first call that panics;
  \<open>calls_made\<close> is the part of the list that is carried out, the panicking call included.
\<close>

datatype call =
    CallWriteHeader go_int
  | CallWrite string
  | CallHeaderSet string string
  | CallHeaderAdd string string
  | CallHeaderDel string

fun do_call :: "responseWriter \<Rightarrow> call \<Rightarrow> responseWriter outcome" where
  "do_call rw (CallWriteHeader code) = WriteHeader rw code"
| "do_call rw (CallWrite bytes) = Returned (Write rw bytes)"
| "do_call rw (CallHeaderSet name v) = Returned (rw_Header_Set rw name v)"
| "do_call rw (CallHeaderAdd name v) = Returned (rw_Header_Add rw name v)"
| "do_call rw (CallHeaderDel name) = Returned (rw_Header_Del rw name)"

fun run_calls :: "responseWriter \<Rightarrow> call list \<Rightarrow> responseWriter outcome" where
  "run_calls rw [] = Returned rw"
| "run_calls rw (c # cs) =
     (case do_call rw c of
        Returned rw' \<Rightarrow> run_calls rw' cs
      | Panicked msg rw' \<Rightarrow> Panicked msg rw')"

fun calls_made :: "responseWriter \<Rightarrow> call list \<Rightarrow> call list" where
  "calls_made rw [] = []"
| "calls_made rw (c # cs) =
     (case do_call rw c of
        Returned rw' \<Rightarrow> c # calls_made rw' cs
      | Panicked msg rw' \<Rightarrow> [c])"

definition WriteHeader_args :: "call list \<Rightarrow> go_int list" where
  "WriteHeader_args calls = concat (map (\<lambda>c. case c of CallWriteHeader code \<Rightarrow> [code] | _ \<Rightarrow> []) calls)"

text \<open>
  The captured status as the specification words it: 200 when the status is never set,
  and otherwise the argument of the first call of \<^verbatim>\<open>WriteHeader\<close>.
\<close>

definition first_WriteHeader_status :: "call list \<Rightarrow> go_int" where
  "first_WriteHeader_status calls =
     (case WriteHeader_args calls of [] \<Rightarrow> StatusOK | code # _ \<Rightarrow> code)"

subsection \<open>http.Error and http.NotFound\<close>

text \<open>
  \<^verbatim>\<open>http.Error\<close> (Go 1.23, the toolchain of the Dockerfiles) removes a content length set
  for other content, sets the content type of a plain-text reply, sends the status and
  prints the message with a newline; \<^verbatim>\<open>http.NotFound\<close> is \<^verbatim>\<open>Error\<close> with a fixed message and
  404.
\<close>

definition http_Error :: "responseWriter \<Rightarrow> string \<Rightarrow> go_int \<Rightarrow> responseWriter outcome" where
  "http_Error w msg code =
     (let w0 = rw_Header_Del w ''Content-Length'';
          w1 = rw_Header_Set w0 ''Content-Type'' ''text/plain; charset=utf-8'';
          w2 = rw_Header_Set w1 ''X-Content-Type-Options'' ''nosniff''
      in case WriteHeader w2 code of
           Panicked p w3 \<Rightarrow> Panicked p w3
         | Returned w3 \<Rightarrow> Returned (Write w3 (msg @ ''\<newline>'')))"

definition http_NotFound :: "responseWriter \<Rightarrow> responseWriter outcome" where
  "http_NotFound w = http_Error w ''404 page not found'' StatusNotFound"

subsection \<open>Requests, the backend and the process\<close>

text \<open>
  Of a request: \<open>URL_Path\<close> is \<^verbatim>\<open>r.URL.Path\<close>, the decoded path that the handlers compare and
  the middleware records; \<open>EscapedPath\<close> is \<^verbatim>\<open>r.URL.EscapedPath()\<close>, the form of the path that
  \<^verbatim>\<open>http.ServeMux\<close> cleans and matches; \<open>RequestURI\<close> is the request target as it was sent. A
  header map that is only ranged over is the list of its entries in the order the loop
  visits them.
\<close>

record request =
  RemoteAddr :: string
  Method :: string
  RequestURI :: string
  URL_Path :: string
  EscapedPath :: string
  Proto :: string
  req_Header :: "(string \<times> string list) list"
  req_Body :: string

record outbound =
  out_Method :: string
  out_URL :: string
  out_Header :: Header
  out_Body :: string

text \<open>
  A backend response, and what \<^verbatim>\<open>io.Copy\<close> achieves on its body: \<open>resp_Body\<close> holds the bytes
  that \<^verbatim>\<open>io.Copy\<close> hands to the caller's sink before it stops, \<open>copy_error\<close> the error it
  returns, if any (a failed read from the backend, a write the sink or the connection
  refused).
\<close>

record backend_response =
  StatusCode :: go_int
  resp_Header :: "(string \<times> string list) list"
  resp_Body :: string
  copy_error :: "string option"

text \<open>What the runtime, the clock and the network supply during one request.\<close>

record 'f environ =
  float64 :: "'f float64_ops"
  fmt_g :: "'f \<Rightarrow> string"
  fmt_duration :: "int64 \<Rightarrow> string"
  log_time :: string
  goroutine_stack :: string
  now_Unix :: int64
  since_startTime :: int64
  elapsed :: int64
  range_ord :: range_order
  NewRequest_error :: "string \<Rightarrow> string \<Rightarrow> string option"
  client_Do :: "outbound \<Rightarrow> string + backend_response"

text \<open>The package-level variables, and the lines written to the two output streams.\<close>

record 'f server =
  version :: string
  backendURL :: string
  metrics :: "'f Metrics"
  stdout :: "string list"
  stderr :: "string list"

type_synonym 'f handler =
  "'f environ \<Rightarrow> request \<Rightarrow> responseWriter \<Rightarrow> 'f server
     \<Rightarrow> (responseWriter \<times> 'f server) outcome"

subsection \<open>The handlers\<close>

text \<open>The request \<^verbatim>\<open>ForwardToBackend\<close> sends, once its headers are copied.\<close>

definition outbound_request :: "request \<Rightarrow> string \<Rightarrow> outbound" where
  "outbound_request r url =
     \<lparr>out_Method = Method r, out_URL = url,
      out_Header = Add_all (req_Header r) Map.empty,
      out_Body = req_Body r\<rparr>"

definition ForwardToBackend :: "'f handler" where
  "ForwardToBackend env r w srv =
     (if URL_Path r \<noteq> ''/'' then map_outcome (\<lambda>w'. (w', srv)) (http_NotFound w)
      else
        case NewRequest_error env (Method r) (backendURL srv) of
          Some err \<Rightarrow>
            map_outcome (\<lambda>w'. (w', srv))
              (http_Error w (''Error creating request: '' @ err) StatusInternalServerError)
        | None \<Rightarrow>
            let req = outbound_request r (backendURL srv)
            in
            case client_Do env req of
              Inl err \<Rightarrow>
                map_outcome (\<lambda>w'. (w', srv))
                  (http_Error w (''Error forwarding to backend: '' @ err) StatusServiceUnavailable)
            | Inr resp \<Rightarrow>
                let w1 = fold (\<lambda>(name, values) w. fold (\<lambda>v w. rw_Header_Add w name v) values w)
                           (resp_Header resp) w
                in
                case WriteHeader w1 (StatusCode resp) of
                  Panicked p w2 \<Rightarrow> Panicked p (w2, srv)
                | Returned w2 \<Rightarrow>
                    let w3 = Write w2 (resp_Body resp)
                    in
                    case copy_error resp of
                      None \<Rightarrow> Returned (w3, srv)
                    | Some err \<Rightarrow>
                        Returned
                          (w3, srv\<lparr>stderr := stderr srv
                                 @ [log_time env @ '' Error copying response body: '' @ err
                                    @ ''\<newline>'']\<rparr>))"

definition VersionHandler :: "'f handler" where
  "VersionHandler env r w srv =
     (if URL_Path r \<noteq> ''/version'' then map_outcome (\<lambda>w'. (w', srv)) (http_NotFound w)
      else
        let w1 = rw_Header_Set w ''Content-Type'' ''text/plain''
        in Returned (Write w1 (''Version: '' @ version srv @ ''\<newline>''), srv))"

definition LivenessHandler :: "'f handler" where
  \<open>LivenessHandler env r w srv =
     (if URL_Path r \<noteq> ''/health/live'' then map_outcome (\<lambda>w'. (w', srv)) (http_NotFound w)
      else
        let w1 = rw_Header_Set w ''Content-Type'' ''application/json''
        in Returned
             (Write w1 (''{"status":"UP","uptime":"'' @ fmt_duration env (since_startTime env) @ ''"}''),
              srv))\<close>

definition ReadinessHandler :: "'f handler" where
  \<open>ReadinessHandler env r w srv =
     (if URL_Path r \<noteq> ''/health/ready'' then map_outcome (\<lambda>w'. (w', srv)) (http_NotFound w)
      else
        let w1 = rw_Header_Set w ''Content-Type'' ''application/json''
        in case WriteHeader w1 StatusOK of
             Panicked p w2 \<Rightarrow> Panicked p (w2, srv)
           | Returned w2 \<Rightarrow>
               Returned (Write w2 (''{"status":"UP","backend":"'' @ backendURL srv @ ''"}''), srv))\<close>

definition MetricsHandler :: "'f handler" where
  "MetricsHandler env r w srv =
     (if URL_Path r \<noteq> ''/metrics'' then map_outcome (\<lambda>w'. (w', srv)) (http_NotFound w)
      else
        let w1 = rw_Header_Set w ''Content-Type'' ''text/plain''
        in Returned
             (Write w1 (GetPrometheusMetrics (float64 env) (fmt_g env) (version srv) (now_Unix env)
                          (range_ord env) (metrics srv)),
              srv))"

definition NotFoundHandler_body :: "string \<Rightarrow> string" where
  \<open>NotFoundHandler_body path =
     ''{"status":"Not Found","message":"The requested URI does not exist","path":"'' @ path @ ''"}''\<close>

definition NotFoundHandler :: "'f handler" where
  "NotFoundHandler env r w srv =
     (let w1 = rw_Header_Set w ''Content-Type'' ''application/json''
      in case WriteHeader w1 StatusNotFound of
           Panicked p w2 \<Rightarrow> Panicked p (w2, srv)
         | Returned w2 \<Rightarrow> Returned (Write w2 (NotFoundHandler_body (URL_Path r)), srv))"

subsection \<open>AccessLogMiddleware\<close>

definition Header_Get :: "(string \<times> string list) list \<Rightarrow> string \<Rightarrow> string" where
  "Header_Get h name = (case map_of h name of Some (v # _) \<Rightarrow> v | _ \<Rightarrow> [])"

definition access_line :: "'f environ \<Rightarrow> request \<Rightarrow> go_int \<Rightarrow> int64 \<Rightarrow> string" where
  \<open>access_line env r code duration =
     ''ACCESS: '' @ log_time env @ '' '' @ RemoteAddr r @ '' - "'' @ Method r @ '' '' @ URL_Path r
       @ '' '' @ Proto r @ ''" '' @ fmt_d code @ '' '' @ Header_Get (req_Header r) ''User-Agent''
       @ '' - '' @ fmt_duration env duration @ ''\<newline>''\<close>

text \<open>
  When the wrapped handler panics, the panic leaves the middleware too: the statements
  after the call of \<open>next\<close> do not run.
\<close>

definition AccessLogMiddleware ::
  "'f handler \<Rightarrow> 'f environ \<Rightarrow> request \<Rightarrow> response \<Rightarrow> 'f server
     \<Rightarrow> (response \<times> 'f server) outcome" where
  "AccessLogMiddleware next env r w srv =
     (let rw = wrap w
      in case next env r rw srv of
           Panicked p (rw', srv1) \<Rightarrow> Panicked p (ResponseWriter rw', srv1)
         | Returned (rw', srv1) \<Rightarrow>
             let duration = elapsed env;
                 srv2 = srv1\<lparr>stdout := stdout srv1 @ [access_line env r (statusCode rw') duration]\<rparr>;
                 srv3 = srv2\<lparr>stdout := stdout srv2 @ [RecordRequest_print (URL_Path r)],
                             metrics := RecordRequest (float64 env) (metrics srv2) (URL_Path r)
                                          (statusCode rw') duration\<rparr>
             in Returned (ResponseWriter rw', srv3))"

subsection \<open>http.ServeMux with the routes of main\<close>

text \<open>
  \<^verbatim>\<open>path.Clean\<close> on a rooted path: empty elements and \<^verbatim>\<open>.\<close> are dropped, \<^verbatim>\<open>..\<close> drops the
  element before it (and is dropped itself at the root), and the result has no trailing
  slash unless it is the root.
\<close>

fun split_slash :: "string \<Rightarrow> string list" where
  "split_slash [] = [[]]"
| "split_slash (c # cs) =
     (if c = CHR ''/'' then [] # split_slash cs
      else case split_slash cs of e # es \<Rightarrow> (c # e) # es | [] \<Rightarrow> [[c]])"

fun join_slash :: "string list \<Rightarrow> string" where
  "join_slash [] = []"
| "join_slash [e] = e"
| "join_slash (e # es) = e @ ''/'' @ join_slash es"

fun clean_elements :: "string list \<Rightarrow> string list \<Rightarrow> string list" where
  "clean_elements [] kept = rev kept"
| "clean_elements (e # es) kept =
     (if e = [] \<or> e = ''.'' then clean_elements es kept
      else if e = ''..'' then clean_elements es (tl kept)
      else clean_elements es (e # kept))"

definition path_Clean :: "string \<Rightarrow> string" where
  "path_Clean p = ''/'' @ join_slash (clean_elements (split_slash p) [])"

text \<open>\<^verbatim>\<open>cleanPath\<close> of net/http: the canonical form of a request path.\<close>

definition http_cleanPath :: "string \<Rightarrow> string" where
  "http_cleanPath p0 =
     (if p0 = [] then ''/''
      else
        let p = (if p0 ! 0 \<noteq> CHR ''/'' then ''/'' @ p0 else p0);
            np = path_Clean p
        in if last p = CHR ''/'' \<and> np \<noteq> ''/''
           then (if length p = length np + 1 \<and> take (length np) p = np then p else np @ ''/'')
           else np)"

text \<open>
  \<^verbatim>\<open>url.PathUnescape\<close> fails on a percent sign that is not followed by two hexadecimal
  digits; the mux then takes the segment as it stands.
\<close>

definition unhex :: "char \<Rightarrow> nat option" where
  "unhex c =
     (let n = of_char c :: nat in
      if 48 \<le> n \<and> n \<le> 57 then Some (n - 48)
      else if 97 \<le> n \<and> n \<le> 102 then Some (n - 97 + 10)
      else if 65 \<le> n \<and> n \<le> 70 then Some (n - 65 + 10)
      else None)"

fun PathUnescape :: "string \<Rightarrow> string option" where
  "PathUnescape [] = Some []"
| "PathUnescape (c # s) =
     (if c = CHR ''%'' then
        (case s of
           h1 # h2 # rest \<Rightarrow>
             (case (unhex h1, unhex h2) of
                (Some a, Some b) \<Rightarrow> map_option ((#) (char_of (16 * a + b))) (PathUnescape rest)
              | _ \<Rightarrow> None)
         | _ \<Rightarrow> None)
      else map_option ((#) c) (PathUnescape s))"

definition pathUnescape :: "string \<Rightarrow> string" where
  "pathUnescape seg = (case PathUnescape seg of None \<Rightarrow> seg | Some u \<Rightarrow> u)"

text \<open>
  The five patterns registered in \<^verbatim>\<open>main\<close>, each with its handler. The mux drops the first
  byte of the path, splits the rest at the slashes and unescapes each segment. A pattern
  without a trailing slash matches when the segments are those of the pattern; the pattern
  \<^verbatim>\<open>/\<close> matches every other path that is not empty. No pattern names a host or a method,
  and none but \<^verbatim>\<open>/\<close> ends in a slash, so the redirect of the mux to a pattern with a
  trailing slash never applies.
\<close>

definition served_routes :: "string list" where
  "served_routes = [''/'', ''/version'', ''/health/live'', ''/health/ready'', ''/metrics'']"

definition mux :: "string \<Rightarrow> 'f handler option" where
  "mux path =
     (if path = [] then None
      else
        let segments = map pathUnescape (split_slash (tl path))
        in if segments = [''version''] then Some VersionHandler
           else if segments = [''health'', ''live''] then Some LivenessHandler
           else if segments = [''health'', ''ready''] then Some ReadinessHandler
           else if segments = [''metrics''] then Some MetricsHandler
           else Some ForwardToBackend)"

text \<open>
  What the client gets for one request: a reply of the mux itself, written without any
  handler of this program (400 for the request target \<^verbatim>\<open>*\<close>, 301 to the canonical path, 404
  where no pattern matches), the reply of a handler that returned, or a connection that
  net/http closes after it has recovered and logged the panic of a handler.
\<close>

datatype reply =
    BadRequest
  | MovedPermanently string
  | MuxNotFound
  | Reply response
  | Aborted string response

text \<open>
  \<^verbatim>\<open>ServeMux.ServeHTTP\<close> on a fresh sink, every registered handler being wrapped in
  \<^verbatim>\<open>AccessLogMiddleware\<close>. The path of a request other than \<^verbatim>\<open>CONNECT\<close> is cleaned before it
  is matched, and a request whose path is not already clean is redirected.
\<close>

definition serve :: "'f environ \<Rightarrow> request \<Rightarrow> 'f server \<Rightarrow> reply \<times> 'f server" where
  "serve env r srv =
     (if RequestURI r = ''*'' then (BadRequest, srv)
      else
        let escapedPath = EscapedPath r;
            path = (if Method r = ''CONNECT'' then escapedPath else http_cleanPath escapedPath)
        in if Method r \<noteq> ''CONNECT'' \<and> path \<noteq> escapedPath then (MovedPermanently path, srv)
           else
             case mux path of
               None \<Rightarrow> (MuxNotFound, srv)
             | Some h \<Rightarrow>
                 (case AccessLogMiddleware h env r new_response srv of
                    Returned (w, srv') \<Rightarrow> (Reply w, srv')
                  | Panicked p (w, srv') \<Rightarrow>
                      (Aborted p w,
                       srv'\<lparr>stderr := stderr srv'
                              @ [log_time env @ '' http: panic serving '' @ RemoteAddr r @ '': '' @ p
                                 @ ''\<newline>'' @ goroutine_stack env @ ''\<newline>'']\<rparr>)))"

text \<open>
  The request is handed to a handler of this program: it does not have the target \<^verbatim>\<open>*\<close>,
  and its path is in canonical form unless its method is \<^verbatim>\<open>CONNECT\<close>.
\<close>

definition dispatched :: "request \<Rightarrow> bool" where
  "dispatched r =
     (RequestURI r \<noteq> ''*''
      \<and> EscapedPath r \<noteq> []
      \<and> (Method r = ''CONNECT'' \<or> http_cleanPath (EscapedPath r) = EscapedPath r))"

text \<open>The status line the client receives: 200 if the handler returned without sending one.\<close>

definition status_sent :: "response \<Rightarrow> go_int" where
  "status_sent w = (case sent w of None \<Rightarrow> StatusOK | Some (code, _) \<Rightarrow> code)"

section \<open>Example states\<close>

text \<open>Concrete states, orders, requests and environments, on which the model is evaluated.\<close>

definition one_request :: "real Metrics" where
  "one_request = RecordRequest exact_float64 (NewMetrics 0) ''/a'' 200 3000000"

definition two_requests :: "real Metrics" where
  "two_requests = record_all exact_float64 0 [(''/a'', 200, 3000000), (''/a'', 404, 30000000)]"

definition example_order :: range_order where
  "example_order =
     \<lparr>range_totalRequests = [''/a''], range_statusCodes = [''/a''],
      range_codes = (\<lambda>_. [404, 200]), range_requestDurations = [''/a'']\<rparr>"

definition one_order :: range_order where
  "one_order =
     \<lparr>range_totalRequests = [''/a''], range_statusCodes = [''/a''],
      range_codes = (\<lambda>_. [200]), range_requestDurations = [''/a'']\<rparr>"

definition example_request :: "string \<Rightarrow> request" where
  "example_request path =
     \<lparr>RemoteAddr = ''10.0.0.7:51234'', Method = ''GET'', RequestURI = path, URL_Path = path,
      EscapedPath = path, Proto = ''HTTP/1.1'',
      req_Header = [(''User-Agent'', [''curl/8.5.0''])], req_Body = []\<rparr>"

definition example_server :: "real server" where
  "example_server =
     \<lparr>version = ''1.0.0'', backendURL = ''http://localhost:8080/version'', metrics = one_request,
      stdout = [], stderr = []\<rparr>"

definition example_environ ::
  "(string \<Rightarrow> string \<Rightarrow> string option) \<Rightarrow> (outbound \<Rightarrow> string + backend_response) \<Rightarrow> real environ" where
  "example_environ new_request round_trip =
     \<lparr>float64 = exact_float64, fmt_g = (\<lambda>_. []), fmt_duration = (\<lambda>_. []),
      log_time = ''2025/01/01 00:00:00'', goroutine_stack = ''goroutine 18 [running]:'',
      now_Unix = 60, since_startTime = 60000000000,
      elapsed = 3000000, range_ord = one_order,
      NewRequest_error = new_request, client_Do = round_trip\<rparr>"

definition example_response :: backend_response where
  "example_response =
     \<lparr>StatusCode = 201, resp_Header = [(''X-Served-By'', [''backend-1''])],
      resp_Body = ''partial'', copy_error = Some ''unexpected EOF''\<rparr>"

definition bad_status_response :: backend_response where
  "bad_status_response =
     \<lparr>StatusCode = 99, resp_Header = [(''X-Served-By'', [''backend-1''])],
      resp_Body = ''late'', copy_error = None\<rparr>"

section \<open>Path keys\<close>

lemma Decode_ascii: "rune_of b < 128 \<Longrightarrow> DecodeRuneInString (b # bs) = (rune_of b, 1)"
  by simp

lemma strings_Map_runes:
  "strings_Map f s = concat (map (\<lambda>c. if 0 \<le> f c then AppendRune (f c) else []) (runes s))"
proof (induction f s rule: strings_Map.induct)
  case (1 mapping)
  show ?case by simp
next
  case (2 mapping b bs)
  obtain c w where cw: "DecodeRuneInString (b # bs) = (c, w)"
    by (cases "DecodeRuneInString (b # bs)")
  from 2[OF cw[symmetric] refl] cw show ?case
    by (simp del: DecodeRuneInString.simps)
qed

lemma clean_rune_range: "0 \<le> clean_rune r \<and> clean_rune r < 128"
  by (simp add: clean_rune_def)

lemma clean_rune_allowed: "clean_rune r = (if allowed r then r else rune_of CHR ''_'')"
  unfolding clean_rune_def allowed_def
  apply simp
  apply (intro conjI impI; (elim conjE disjE)?; arith)
  done

lemma clean_rune_idem: "clean_rune (clean_rune r) = clean_rune r"
  by (simp add: clean_rune_def)

lemma char_of_95: "char_of (95 :: int) = CHR ''_''"
  by (simp add: char_of_def)

lemma AppendRune_clean: "AppendRune (clean_rune r) = [char_of (clean_rune r)]"
  using clean_rune_range[of r] by (simp add: AppendRune_def)

lemma strings_Map_clean_rune:
  "strings_Map clean_rune p = map (\<lambda>c. char_of (clean_rune c)) (runes p)"
  unfolding strings_Map_runes
  by (induction "runes p" arbitrary: p) (simp_all add: clean_rune_range AppendRune_clean)

lemma strings_Map_clean:
  "strings_Map clean_rune p = map (\<lambda>c. if allowed c then char_of c else CHR ''_'') (runes p)"
  unfolding strings_Map_clean_rune
  by (rule map_cong) (simp_all add: clean_rune_allowed char_of_95)

lemma runes_key_bytes: "list_all key_byte s \<Longrightarrow> runes s = map rune_of s"
  by (induction s) (simp_all add: key_byte_def Decode_ascii del: DecodeRuneInString.simps)

lemma strings_Map_fixed:
  assumes "list_all key_byte s"
  shows "strings_Map clean_rune s = s"
proof -
  have "strings_Map clean_rune s = map (\<lambda>c. char_of (clean_rune c)) (map rune_of s)"
    by (simp add: strings_Map_clean_rune runes_key_bytes[OF assms])
  also have "\<dots> = s"
    using assms by (induction s) (simp_all add: key_byte_def)
  finally show ?thesis .
qed

lemma key_byte_out: "key_byte (char_of (clean_rune c))"
proof -
  have "rune_of (char_of (clean_rune c)) = clean_rune c"
    using clean_rune_range[of c] by (simp add: of_char_of)
  then show ?thesis
    using clean_rune_range[of c] by (simp add: key_byte_def clean_rune_idem)
qed

lemma key_bytes_Map: "list_all key_byte (strings_Map clean_rune p)"
  by (simp add: strings_Map_clean_rune list_all_iff key_byte_out)

lemma key_bytes_root: "list_all key_byte ''root''"
  by (simp add: key_byte_def clean_rune_def)

lemma cleanPath_fixed:
  assumes "list_all key_byte s" "s \<noteq> []" "s ! 0 \<noteq> CHR ''_''"
  shows "cleanPath s = s"
  using assms by (simp add: cleanPath_def strings_Map_fixed)

lemma cleanPath_idem: "cleanPath (cleanPath p) = cleanPath p"
proof (cases "strings_Map clean_rune p = [] \<or> strings_Map clean_rune p ! 0 = CHR ''_''")
  case True
  then have e: "cleanPath p = ''root'' @ strings_Map clean_rune p"
    by (simp add: cleanPath_def)
  have "list_all key_byte (''root'' @ strings_Map clean_rune p)"
    using key_bytes_root key_bytes_Map[of p] by (simp only: list_all_append simp_thms)
  then have "cleanPath (''root'' @ strings_Map clean_rune p) = ''root'' @ strings_Map clean_rune p"
    by (rule cleanPath_fixed) simp_all
  with e show ?thesis by simp
next
  case False
  then have e: "cleanPath p = strings_Map clean_rune p"
    by (simp add: cleanPath_def)
  have "cleanPath (strings_Map clean_rune p) = strings_Map clean_rune p"
    using False by (intro cleanPath_fixed key_bytes_Map) simp_all
  with e show ?thesis by simp
qed

section \<open>The aggregator\<close>


lemma RecordRequest_totalRequests:
  "totalRequests (RecordRequest ops m p c d) =
     (totalRequests m)(cleanPath p \<mapsto> counter (totalRequests m) (cleanPath p) + 1)"
  by (simp add: RecordRequest_def Let_def)

lemma RecordRequest_statusCodes:
  "statusCodes (RecordRequest ops m p c d) =
     (statusCodes m)(cleanPath p \<mapsto>
        (codes_of (statusCodes m) (cleanPath p))(c \<mapsto> counter (codes_of (statusCodes m) (cleanPath p)) c + 1))"
  by (auto simp: RecordRequest_def Let_def codes_of_def split: option.splits)

lemma RecordRequest_requestDurations:
  "requestDurations (RecordRequest ops m p c d) =
     (requestDurations m)(cleanPath p \<mapsto> durations_of (requestDurations m) (cleanPath p) @ [Seconds ops d])"
  by (simp add: RecordRequest_def Let_def)

lemma RecordRequest_appStartTimestamp:
  "appStartTimestamp (RecordRequest ops m p c d) = appStartTimestamp m"
  by (simp add: RecordRequest_def Let_def)

lemmas RecordRequest_fields =
  RecordRequest_totalRequests RecordRequest_statusCodes RecordRequest_requestDurations
  RecordRequest_appStartTimestamp

lemma record_all_Nil: "record_all ops now [] = NewMetrics now"
  by (simp add: record_all_def)

lemma record_all_snoc:
  "record_all ops now (calls @ [(p, c, d)]) = RecordRequest ops (record_all ops now calls) p c d"
  by (simp add: record_all_def)

lemma record_all_doms:
  "dom (statusCodes (record_all ops now calls)) = dom (totalRequests (record_all ops now calls))
   \<and> dom (requestDurations (record_all ops now calls)) = dom (totalRequests (record_all ops now calls))"
proof (induction calls rule: rev_induct)
  case Nil
  show ?case by (simp add: record_all_Nil NewMetrics_def)
next
  case (snoc x calls)
  obtain p c d where x: "x = (p, c, d)" by (cases x)
  from snoc show ?case unfolding x record_all_snoc
    by (simp only: RecordRequest_fields dom_fun_upd) simp
qed

lemma sum_codes_upd:
  assumes "finite (dom codes)"
  shows "sum_codes (codes(c \<mapsto> counter codes c + 1)) = sum_codes codes + 1"
proof -
  let ?codes = "codes(c \<mapsto> counter codes c + 1)"
  have d: "dom ?codes = insert c (dom codes - {c})" by auto
  have "sum_codes ?codes = counter ?codes c + (\<Sum>x \<in> dom codes - {c}. counter ?codes x)"
    unfolding sum_codes_def d using assms by (subst sum.insert) auto
  also have "(\<Sum>x \<in> dom codes - {c}. counter ?codes x) = (\<Sum>x \<in> dom codes - {c}. counter codes x)"
    by (rule sum.cong) (auto simp: counter_def)
  also have "counter ?codes c = counter codes c + 1" by (simp add: counter_def)
  also have "counter codes c + 1 + (\<Sum>x \<in> dom codes - {c}. counter codes x) = sum_codes codes + 1"
  proof (cases "c \<in> dom codes")
    case True
    then have "sum_codes codes = counter codes c + (\<Sum>x \<in> dom codes - {c}. counter codes x)"
      unfolding sum_codes_def using assms by (simp add: sum.remove)
    then show ?thesis by simp
  next
    case False
    then have "counter codes c = 0" "dom codes - {c} = dom codes"
      by (auto simp: counter_def split: option.splits)
    then show ?thesis by (simp add: sum_codes_def)
  qed
  finally show ?thesis .
qed

lemma counter_upd: "counter (m(k \<mapsto> v)) k = v"
  by (simp add: counter_def)

lemma consistent_RecordRequest:
  assumes "consistent m k"
  shows "consistent (RecordRequest ops m p c d) k"
proof (cases "k = cleanPath p")
  case True
  let ?codes = "codes_of (statusCodes m) k"
  let ?m' = "RecordRequest ops m p c d"
  from assms have f: "finite (dom ?codes)"
    and s: "counter (totalRequests m) k = sum_codes ?codes"
    and l: "counter (totalRequests m) k = of_nat (length (durations_of (requestDurations m) k))"
    unfolding consistent_def by blast+
  have c': "codes_of (statusCodes ?m') k = ?codes(c \<mapsto> counter ?codes c + 1)"
    by (simp add: True RecordRequest_statusCodes codes_of_def)
  have t': "counter (totalRequests ?m') k = counter (totalRequests m) k + 1"
    by (simp add: True RecordRequest_totalRequests counter_upd)
  have d': "durations_of (requestDurations ?m') k = durations_of (requestDurations m) k @ [Seconds ops d]"
    by (simp add: True RecordRequest_requestDurations durations_of_def)
  have "finite (dom (codes_of (statusCodes ?m') k))"
    unfolding c' using f by simp
  moreover have "counter (totalRequests ?m') k = sum_codes (codes_of (statusCodes ?m') k)"
    unfolding c' t' sum_codes_upd[OF f] s ..
  moreover have "counter (totalRequests ?m') k = of_nat (length (durations_of (requestDurations ?m') k))"
    unfolding d' t' l by simp
  ultimately show ?thesis by (simp only: consistent_def simp_thms)
next
  case False
  then have "consistent (RecordRequest ops m p c d) k = consistent m k"
    by (simp add: consistent_def RecordRequest_fields counter_def codes_of_def durations_of_def)
  with assms show ?thesis by simp
qed

lemma consistent_record_all: "consistent (record_all ops now calls) k"
proof (induction calls rule: rev_induct)
  case Nil
  show ?case by (simp add: record_all_Nil NewMetrics_def consistent_def counter_def codes_of_def durations_of_def sum_codes_def)
next
  case (snoc x calls)
  obtain p c d where x: "x = (p, c, d)" by (cases x)
  from snoc show ?case unfolding x record_all_snoc by (rule consistent_RecordRequest)
qed


section \<open>The histogram\<close>


lemma inner_fold_nth:
  "k + length bs \<le> length bc \<Longrightarrow> j < length bc \<Longrightarrow>
   length (fold (\<lambda>(i, b) bc. if le d b then bc[i := bc ! i + (1::go_int)] else bc) (enumerate k bs) bc) = length bc
   \<and> fold (\<lambda>(i, b) bc. if le d b then bc[i := bc ! i + 1] else bc) (enumerate k bs) bc ! j =
     (if k \<le> j \<and> j < k + length bs \<and> le d (bs ! (j - k)) then bc ! j + 1 else bc ! j)"
proof (induction bs arbitrary: k bc)
  case Nil
  show ?case by simp
next
  case (Cons b bs)
  let ?bc = "if le d b then bc[k := bc ! k + 1] else bc"
  have len: "length ?bc = length bc" by simp
  from Cons.prems have p: "Suc k + length bs \<le> length ?bc" "j < length ?bc" by simp_all
  note IH = Cons.IH[OF p]
  have e: "fold (\<lambda>(i, b) bc. if le d b then bc[i := bc ! i + 1] else bc) (enumerate k (b # bs)) bc
           = fold (\<lambda>(i, b) bc. if le d b then bc[i := bc ! i + 1] else bc) (enumerate (Suc k) bs) ?bc"
    by simp
  show ?case unfolding e using IH Cons.prems
    by (auto simp: nth_list_update nth_Cons')
qed

lemma observe_closed:
  assumes "length bc = Suc (length (buckets ops))"
  shows "observe ops (bc, s) d =
           (map2 (+) bc (map (\<lambda>b. if f_le ops d b then 1 else 0) (buckets ops) @ [1]), f_add ops s d)"
proof -
  let ?step = "\<lambda>(i, b) bc. if f_le ops d b then bc[i := bc ! i + (1::go_int)] else bc"
  let ?n = "length (buckets ops)"
  let ?counted = "fold ?step (enumerate 0 (buckets ops)) bc"
  have nth: "length ?counted = length bc \<and>
             ?counted ! j = (if j < ?n \<and> f_le ops d (buckets ops ! j) then bc ! j + 1 else bc ! j)"
    if "j < length bc" for j
    using inner_fold_nth[of 0 "buckets ops" bc j "f_le ops" d] assms that by simp
  have len: "length ?counted = length bc" using nth[of 0] assms by simp
  have "?counted[?n := ?counted ! ?n + 1] =
        map2 (+) bc (map (\<lambda>b. if f_le ops d b then 1 else 0) (buckets ops) @ [1])"
  proof (rule nth_equalityI)
    show "length (?counted[?n := ?counted ! ?n + 1]) =
          length (map2 (+) bc (map (\<lambda>b. if f_le ops d b then 1 else 0) (buckets ops) @ [1]))"
      using len assms by simp
  next
    fix j assume "j < length (?counted[?n := ?counted ! ?n + 1])"
    then have j: "j < length bc" using len by simp
    then have "j < ?n \<or> j = ?n" using assms by auto
    then show "?counted[?n := ?counted ! ?n + 1] ! j =
          map2 (+) bc (map (\<lambda>b. if f_le ops d b then 1 else 0) (buckets ops) @ [1]) ! j"
      using nth[OF j] j assms len
      by (auto simp: nth_list_update nth_append)
  qed
  then show ?thesis by (simp add: observe_def Let_def)
qed

lemma histogram_Nil:
  "histogram ops [] = (replicate (Suc (length (buckets ops))) 0, f_zero ops)"
  by (simp add: histogram_def)

lemma histogram_snoc: "histogram ops (ds @ [d]) = observe ops (histogram ops ds) d"
  by (simp add: histogram_def)

lemma histogram_closed:
  "histogram ops ds =
     (map (\<lambda>b. of_nat (length (filter (\<lambda>d. f_le ops d b) ds))) (buckets ops) @ [of_nat (length ds)],
      foldl (f_add ops) (f_zero ops) ds)"
proof (induction ds rule: rev_induct)
  case Nil
  show ?case unfolding histogram_Nil
    by (simp add: map_replicate_const replicate_append_same)
next
  case (snoc d ds)
  show ?case unfolding histogram_snoc snoc
    by (subst observe_closed) (simp_all add: zip_map_map map2_map_map zip_same_conv_map o_def zip_append)
qed


section \<open>What a rendering shows\<close>


lemma no_match: "(\<And>l. l \<in> set ls \<Longrightarrow> sel l = []) \<Longrightarrow> concat (map sel ls) = []"
  by (induction ls) simp_all

lemma pick_concat:
  "concat (map sel (concat (map gen ks))) = concat (map (\<lambda>p. concat (map sel (gen p))) ks)"
  by (induction ks) simp_all

lemma pick_key:
  "distinct ks \<Longrightarrow> concat (map (\<lambda>p. if p = k then F p else []) ks) = (if k \<in> set ks then F k else [])"
  by (induction ks) auto

lemma pick_visits:
  assumes "visits m ks" and "\<And>p. m p = None \<Longrightarrow> F p = []"
  shows "concat (map (\<lambda>p. if p = k then F p else []) ks) = F k"
proof -
  from assms(1) have d: "distinct ks" and s: "set ks = dom m" by (simp_all add: visits_def)
  show ?thesis unfolding pick_key[OF d] s using assms(2)[of k] by (auto simp: dom_def)
qed

lemma histogram_lines_closed:
  "histogram_lines ops path ds =
     map (\<lambda>b. DurationBucket path (Some b) (of_nat (length (filter (\<lambda>d. f_le ops d b) ds)))) (buckets ops)
     @ [DurationBucket path None (of_nat (length ds)),
        DurationSum path (foldl (f_add ops) (f_zero ops) ds),
        DurationCount path (of_nat (length ds))]"
proof -
  have "map (\<lambda>(i, b). DurationBucket path (Some b)
               ((map (\<lambda>b. of_nat (length (filter (\<lambda>d. f_le ops d b) ds))) (buckets ops) @ [of_nat (length ds)]) ! i))
          (enumerate 0 (buckets ops))
        = map (\<lambda>b. DurationBucket path (Some b) (of_nat (length (filter (\<lambda>d. f_le ops d b) ds)))) (buckets ops)"
    by (rule nth_equalityI) (simp_all add: nth_enumerate_eq nth_append)
  then show ?thesis
    by (simp add: histogram_lines_def histogram_closed nth_append)
qed

lemma lines_parts:
  "GetPrometheusMetrics_lines ops ver now ord m =
     [Literal ''# HELP app_info Information about the application'',
      Literal ''# TYPE app_info gauge'',
      AppInfo ver,
      Literal '''',
      Literal ''# HELP app_uptime_seconds How long the application has been running'',
      Literal ''# TYPE app_uptime_seconds counter'',
      UptimeSeconds (now - appStartTimestamp m),
      Literal '''',
      Literal ''# HELP http_requests_total Total number of HTTP requests'',
      Literal ''# TYPE http_requests_total counter'']
     @ total_part ord m
     @ [Literal '''',
        Literal ''# HELP http_response_status_total HTTP response status codes'',
        Literal ''# TYPE http_response_status_total counter'']
     @ status_part ord m
     @ [Literal '''',
        Literal ''# HELP http_request_duration_seconds HTTP request duration in seconds'',
        Literal ''# TYPE http_request_duration_seconds histogram'']
     @ histogram_part ops ord m"
  by (simp add: GetPrometheusMetrics_lines_def total_part_def status_part_def histogram_part_def)

lemma total_part_kind: "l \<in> set (total_part ord m) \<Longrightarrow> \<exists>p v. l = RequestsTotal p v"
  by (auto simp: total_part_def split: option.splits)

lemma status_part_kind: "l \<in> set (status_part ord m) \<Longrightarrow> \<exists>p c v. l = ResponseStatusTotal p c v"
  by (auto simp: status_part_def split: option.splits)

lemma histogram_part_kind:
  "l \<in> set (histogram_part ops ord m) \<Longrightarrow>
     (\<exists>p b v. l = DurationBucket p b v) \<or> (\<exists>p v. l = DurationSum p v) \<or> (\<exists>p v. l = DurationCount p v)"
  by (auto simp: histogram_part_def histogram_lines_closed split: option.splits)

lemma total_at_other [simp]:
  "concat (map (total_at k) (status_part ord m)) = []"
  "concat (map (total_at k) (histogram_part ops ord m)) = []"
  by (rule no_match; auto dest!: status_part_kind histogram_part_kind)+

lemma status_at_other [simp]:
  "concat (map (status_at k c) (total_part ord m)) = []"
  "concat (map (status_at k c) (histogram_part ops ord m)) = []"
  by (rule no_match; auto dest!: total_part_kind histogram_part_kind)+

lemma histogram_at_other [simp]:
  "concat (map (inf_bucket_at k) (total_part ord m)) = []"
  "concat (map (inf_bucket_at k) (status_part ord m)) = []"
  "concat (map (sum_at k) (total_part ord m)) = []"
  "concat (map (sum_at k) (status_part ord m)) = []"
  "concat (map (count_at k) (total_part ord m)) = []"
  "concat (map (count_at k) (status_part ord m)) = []"
  by (rule no_match; auto dest!: total_part_kind status_part_kind)+

lemma total_of_total_part:
  assumes "visits (totalRequests m) (range_totalRequests ord)"
  shows "concat (map (total_at k) (total_part ord m))
         = (case totalRequests m k of None \<Rightarrow> [] | Some v \<Rightarrow> [v])"
proof -
  have "concat (map (total_at k) (total_part ord m))
        = concat (map (\<lambda>p. if p = k then (case totalRequests m p of None \<Rightarrow> [] | Some v \<Rightarrow> [v]) else [])
            (range_totalRequests ord))"
    unfolding total_part_def pick_concat
    by (rule arg_cong[where f=concat], rule map_cong) (auto split: option.splits)
  also have "\<dots> = (case totalRequests m k of None \<Rightarrow> [] | Some v \<Rightarrow> [v])"
    by (rule pick_visits[OF assms]) simp
  finally show ?thesis .
qed

lemma status_of_status_part:
  assumes "visits (statusCodes m) (range_statusCodes ord)"
    and "list_all (\<lambda>path. visits (codes_of (statusCodes m) path) (range_codes ord path)) (range_statusCodes ord)"
  shows "concat (map (status_at k c) (status_part ord m))
         = (case codes_of (statusCodes m) k c of None \<Rightarrow> [] | Some v \<Rightarrow> [v])"
proof -
  let ?F = "\<lambda>p. case statusCodes m p of None \<Rightarrow> []
              | Some codes \<Rightarrow> concat (map (\<lambda>code. if code = c then (case codes code of None \<Rightarrow> [] | Some v \<Rightarrow> [v]) else [])
                                       (range_codes ord p))"
  have "concat (map (status_at k c) (status_part ord m))
        = concat (map (\<lambda>p. if p = k then ?F p else []) (range_statusCodes ord))"
    unfolding status_part_def pick_concat
    by (rule arg_cong[where f=concat], rule map_cong)
       (auto split: option.splits simp: pick_concat intro!: arg_cong[where f=concat] no_match)
  also have "\<dots> = ?F k"
    by (rule pick_visits[OF assms(1)]) simp
  also have "\<dots> = (case codes_of (statusCodes m) k c of None \<Rightarrow> [] | Some v \<Rightarrow> [v])"
  proof (cases "statusCodes m k")
    case None
    then show ?thesis by (simp add: codes_of_def)
  next
    case (Some codes)
    then have "k \<in> set (range_statusCodes ord)" using assms(1) by (auto simp: visits_def)
    with assms(2) have "visits (codes_of (statusCodes m) k) (range_codes ord k)"
      by (simp add: list_all_iff)
    then have v: "visits codes (range_codes ord k)" using Some by (simp add: codes_of_def)
    show ?thesis using Some pick_visits[OF v, of "\<lambda>code. case codes code of None \<Rightarrow> [] | Some v \<Rightarrow> [v]" c]
      by (simp add: codes_of_def)
  qed
  finally show ?thesis .
qed


lemma inf_bucket_at_block:
  "concat (map (inf_bucket_at k) (histogram_lines ops p ds)) = (if p = k then [of_nat (length ds)] else [])"
  by (simp add: histogram_lines_closed o_def)

lemma sum_at_block:
  "concat (map (sum_at k) (histogram_lines ops p ds)) = (if p = k then [foldl (f_add ops) (f_zero ops) ds] else [])"
  by (simp add: histogram_lines_closed o_def)

lemma count_at_block:
  "concat (map (count_at k) (histogram_lines ops p ds)) = (if p = k then [of_nat (length ds)] else [])"
  by (simp add: histogram_lines_closed o_def)

lemma pick_option:
  assumes "\<And>p v. concat (map sel (gen p v)) = (if p = k then F p v else [])"
  shows "concat (map sel (case m p of None \<Rightarrow> [] | Some v \<Rightarrow> gen p v))
         = (if p = k then (case m p of None \<Rightarrow> [] | Some v \<Rightarrow> F p v) else [])"
  by (cases "m p") (simp_all only: option.case assms list.map concat.simps if_cancel)

lemma pick_part:
  assumes "visits m ks"
    and "\<And>p v. concat (map sel (gen p v)) = (if p = k then F p v else [])"
  shows "concat (map sel (concat (map (\<lambda>p. case m p of None \<Rightarrow> [] | Some v \<Rightarrow> gen p v) ks)))
         = (case m k of None \<Rightarrow> [] | Some v \<Rightarrow> F k v)"
  unfolding pick_concat pick_option[where sel=sel and gen=gen and F=F, OF assms(2)]
  by (rule pick_visits[OF assms(1)]) simp

lemma histogram_of_histogram_part:
  assumes "visits (requestDurations m) (range_requestDurations ord)"
  shows "concat (map (inf_bucket_at k) (histogram_part ops ord m))
           = (case requestDurations m k of None \<Rightarrow> [] | Some ds \<Rightarrow> [of_nat (length ds)])"
    and "concat (map (sum_at k) (histogram_part ops ord m))
           = (case requestDurations m k of None \<Rightarrow> [] | Some ds \<Rightarrow> [foldl (f_add ops) (f_zero ops) ds])"
    and "concat (map (count_at k) (histogram_part ops ord m))
           = (case requestDurations m k of None \<Rightarrow> [] | Some ds \<Rightarrow> [of_nat (length ds)])"
  unfolding histogram_part_def
  by (rule pick_part[OF assms] inf_bucket_at_block sum_at_block count_at_block)+

text \<open>What a rendering shows for each key.\<close>

lemma rendered:
  fixes ops ver now
  assumes "range_valid ord m"
  defines "out \<equiv> GetPrometheusMetrics_lines ops ver now ord m"
  shows "requests_total_of out k = (case totalRequests m k of None \<Rightarrow> [] | Some v \<Rightarrow> [v])"
    and "response_status_of out k c = (case codes_of (statusCodes m) k c of None \<Rightarrow> [] | Some v \<Rightarrow> [v])"
    and "inf_bucket_of out k = (case requestDurations m k of None \<Rightarrow> [] | Some ds \<Rightarrow> [of_nat (length ds)])"
    and "duration_sum_of out k = (case requestDurations m k of None \<Rightarrow> [] | Some ds \<Rightarrow> [foldl (f_add ops) (f_zero ops) ds])"
    and "duration_count_of out k = (case requestDurations m k of None \<Rightarrow> [] | Some ds \<Rightarrow> [of_nat (length ds)])"
  using assms(1) unfolding out_def lines_parts range_valid_def
    requests_total_of_def response_status_of_def inf_bucket_of_def duration_sum_of_def duration_count_of_def
  by (simp_all add: total_of_total_part status_of_status_part histogram_of_histogram_part)

section \<open>Headers, the wrapper and the handlers\<close>

lemma rw_Header_Add_values:
  "fold (\<lambda>v w. rw_Header_Add w name v) values w =
     w\<lparr>ResponseWriter := (ResponseWriter w)
         \<lparr>hdr := fold (\<lambda>v h. Header_Add h name v) values (hdr (ResponseWriter w))\<rparr>\<rparr>"
  by (induction "values" arbitrary: w) (simp_all add: rw_Header_Add_def)

lemma rw_Add_all:
  "fold (\<lambda>(name, values) w. fold (\<lambda>v w. rw_Header_Add w name v) values w) entries w =
     w\<lparr>ResponseWriter := (ResponseWriter w)\<lparr>hdr := Add_all entries (hdr (ResponseWriter w))\<rparr>\<rparr>"
proof (induction entries arbitrary: w)
  case Nil
  show ?case by (simp add: Add_all_def)
next
  case (Cons e entries)
  obtain name vals where e: "e = (name, vals)" by (cases e)
  have "fold (\<lambda>(name, values) w. fold (\<lambda>v w. rw_Header_Add w name v) values w) (e # entries) w
        = fold (\<lambda>(name, values) w. fold (\<lambda>v w. rw_Header_Add w name v) values w) entries
            (fold (\<lambda>v w. rw_Header_Add w name v) vals w)"
    by (simp add: e)
  also have "\<dots> = (fold (\<lambda>v w. rw_Header_Add w name v) vals w)
      \<lparr>ResponseWriter := (ResponseWriter (fold (\<lambda>v w. rw_Header_Add w name v) vals w))
         \<lparr>hdr := Add_all entries (hdr (ResponseWriter (fold (\<lambda>v w. rw_Header_Add w name v) vals w)))\<rparr>\<rparr>"
    by (rule Cons)
  also have "\<dots> = w\<lparr>ResponseWriter := (ResponseWriter w)\<lparr>hdr := Add_all (e # entries) (hdr (ResponseWriter w))\<rparr>\<rparr>"
    unfolding rw_Header_Add_values by (simp add: Add_all_def e)
  finally show ?case .
qed

lemma Header_Add_values:
  "fold (\<lambda>v h. Header_Add h name v) values h n =
     (if n = name \<and> values \<noteq> [] then Some ((case h n of None \<Rightarrow> [] | Some vs \<Rightarrow> vs) @ values)
      else h n)"
  by (induction "values" arbitrary: h) (auto simp: Header_Add_def)

lemma Add_all_lookup:
  "Add_all entries h n =
     (if values_for entries n = [] then h n
      else Some ((case h n of None \<Rightarrow> [] | Some vs \<Rightarrow> vs) @ values_for entries n))"
proof (induction entries arbitrary: h)
  case Nil
  show ?case by (simp add: Add_all_def values_for_def)
next
  case (Cons e entries)
  obtain name vals where e: "e = (name, vals)" by (cases e)
  have "Add_all (e # entries) h = Add_all entries (fold (\<lambda>v h. Header_Add h name v) vals h)"
    by (simp add: Add_all_def e)
  then show ?case
    by (auto simp: Cons Header_Add_values values_for_def e)
qed

lemma Add_all_copies:
  assumes "(name, values) \<in> set entries" "v \<in> set values"
  shows "\<exists>vs. Add_all entries h name = Some vs \<and> v \<in> set vs"
proof -
  from assms have "v \<in> set (values_for entries name)"
    by (auto simp: values_for_def intro!: bexI[of _ "(name, values)"])
  then show ?thesis by (auto simp: Add_all_lookup)
qed

lemma final_code_constants:
  "final_code StatusOK" "final_code StatusNotFound" "final_code StatusInternalServerError"
  "final_code StatusServiceUnavailable"
  by (simp_all add: final_code_def invalid_code_def informational_def StatusOK_def StatusNotFound_def
      StatusInternalServerError_def StatusServiceUnavailable_def StatusSwitchingProtocols_def)

lemma response_WriteHeader_final:
  assumes "sent w = None" "final_code code"
  shows "response_WriteHeader w code = Returned (w\<lparr>sent := Some (code, hdr w)\<rparr>)"
  using assms by (simp add: response_WriteHeader_def final_code_def)

lemma response_WriteHeader_invalid:
  assumes "sent w = None" "invalid_code code"
  shows "response_WriteHeader w code = Panicked (''invalid WriteHeader code '' @ fmt_d code) w"
  using assms by (simp add: response_WriteHeader_def)

lemma WriteHeader_final:
  assumes "sent (ResponseWriter rw) = None" "final_code code"
  shows "WriteHeader rw code =
           Returned (rw\<lparr>statusCode := code,
                        ResponseWriter := (ResponseWriter rw)\<lparr>sent := Some (code, hdr (ResponseWriter rw))\<rparr>\<rparr>)"
  using assms by (simp add: WriteHeader_def Let_def response_WriteHeader_final)

lemma WriteHeader_invalid:
  assumes "sent (ResponseWriter rw) = None" "invalid_code code"
  shows "WriteHeader rw code =
           Panicked (''invalid WriteHeader code '' @ fmt_d code) (rw\<lparr>statusCode := code\<rparr>)"
  using assms by (simp add: WriteHeader_def Let_def response_WriteHeader_invalid)

lemma WriteHeader_statusCode: "statusCode (state (WriteHeader rw code)) = code"
  by (cases "response_WriteHeader (ResponseWriter (rw\<lparr>statusCode := code\<rparr>)) code")
     (simp_all add: WriteHeader_def Let_def)

lemma http_Error_fresh:
  assumes "sent (ResponseWriter w) = None" "final_code code"
  shows "http_Error w msg code =
           Returned
             \<lparr>ResponseWriter =
                (ResponseWriter w)
                  \<lparr>hdr := (Header_Del (hdr (ResponseWriter w)) ''Content-Length'')
                            (''Content-Type'' \<mapsto> [''text/plain; charset=utf-8''],
                             ''X-Content-Type-Options'' \<mapsto> [''nosniff'']),
                   sent := Some (code,
                             (Header_Del (hdr (ResponseWriter w)) ''Content-Length'')
                               (''Content-Type'' \<mapsto> [''text/plain; charset=utf-8''],
                                ''X-Content-Type-Options'' \<mapsto> [''nosniff''])),
                   body := body (ResponseWriter w) @ msg @ ''\<newline>''\<rparr>,
              statusCode = code\<rparr>"
  using assms
  by (simp add: http_Error_def Let_def WriteHeader_final rw_Header_Set_def rw_Header_Del_def
      Header_Set_def Write_def response_Write_def)

lemma http_NotFound_fresh:
  "http_NotFound (wrap new_response) =
     Returned
       \<lparr>ResponseWriter =
          \<lparr>hdr = [''Content-Type'' \<mapsto> [''text/plain; charset=utf-8''],
                  ''X-Content-Type-Options'' \<mapsto> [''nosniff'']],
           sent_1xx = [],
           sent = Some (StatusNotFound,
                    [''Content-Type'' \<mapsto> [''text/plain; charset=utf-8''],
                     ''X-Content-Type-Options'' \<mapsto> [''nosniff'']]),
           body = ''404 page not found\<newline>''\<rparr>,
        statusCode = StatusNotFound\<rparr>"
  unfolding http_NotFound_def
  by (subst http_Error_fresh)
     (simp_all add: final_code_constants wrap_def new_response_def Header_Del_def)

lemma wrap_fresh: "sent (ResponseWriter (wrap new_response)) = None"
  by (simp add: wrap_def new_response_def)

lemma WriteHeader_args_snoc:
  "WriteHeader_args (calls @ [c]) =
     WriteHeader_args calls @ (case c of CallWriteHeader code \<Rightarrow> [code] | _ \<Rightarrow> [])"
  by (simp add: WriteHeader_args_def)

lemma WriteHeader_args_Cons:
  "WriteHeader_args (c # calls) =
     (case c of CallWriteHeader code \<Rightarrow> [code] | _ \<Rightarrow> []) @ WriteHeader_args calls"
  by (simp add: WriteHeader_args_def)

lemma do_call_statusCode:
  "statusCode (state (do_call rw c)) = last (statusCode rw # WriteHeader_args [c])"
  by (cases c)
     (simp_all add: WriteHeader_args_def WriteHeader_statusCode Write_def rw_Header_Set_def
        rw_Header_Add_def rw_Header_Del_def)

lemma statusCode_calls:
  "statusCode (state (run_calls rw calls)) = last (statusCode rw # WriteHeader_args (calls_made rw calls))"
proof (induction calls arbitrary: rw)
  case Nil
  show ?case by (simp add: WriteHeader_args_def)
next
  case (Cons c calls)
  show ?case
  proof (cases "do_call rw c")
    case (Returned rw')
    have "statusCode rw' = last (statusCode rw # WriteHeader_args [c])"
      using do_call_statusCode[of rw c] Returned by simp
    then show ?thesis
      using Returned Cons[of rw']
      by (cases c) (simp_all add: WriteHeader_args_Cons WriteHeader_args_def)
  next
    case (Panicked msg rw')
    then show ?thesis
      using do_call_statusCode[of rw c] by simp
  qed
qed

lemma calls_made_Returned:
  "run_calls rw calls = Returned rw' \<Longrightarrow> calls_made rw calls = calls"
  by (induction calls arbitrary: rw) (auto split: outcome.splits)

lemma state_with_server [simp]:
  "snd (state (map_outcome (\<lambda>w'. (w', srv)) x)) = srv"
  "fst (state (map_outcome (\<lambda>w'. (w', srv)) x)) = state x"
  by (cases x; simp)+

lemma handler_metrics:
  "metrics (snd (state (ForwardToBackend env r w srv))) = metrics srv"
  "metrics (snd (state (VersionHandler env r w srv))) = metrics srv"
  "metrics (snd (state (LivenessHandler env r w srv))) = metrics srv"
  "metrics (snd (state (ReadinessHandler env r w srv))) = metrics srv"
  "metrics (snd (state (MetricsHandler env r w srv))) = metrics srv"
  by (simp_all add: ForwardToBackend_def VersionHandler_def LivenessHandler_def ReadinessHandler_def
      MetricsHandler_def Let_def outcome.map_sel split: option.splits sum.splits outcome.splits)

lemma mux_metrics:
  "mux p = Some h \<Longrightarrow> metrics (snd (state (h env r w srv))) = metrics srv"
  by (auto simp: mux_def Let_def handler_metrics split: if_splits)

lemma mux_total: "p \<noteq> [] \<Longrightarrow> \<exists>h. mux p = Some h"
  by (simp add: mux_def Let_def)

lemma AccessLogMiddleware_Returned:
  assumes "next env r (wrap w) srv = Returned (rw', srv1)"
  shows "AccessLogMiddleware next env r w srv =
           Returned (ResponseWriter rw',
             srv1\<lparr>stdout := stdout srv1 @ [access_line env r (statusCode rw') (elapsed env),
                                             RecordRequest_print (URL_Path r)],
                   metrics := RecordRequest (float64 env) (metrics srv1) (URL_Path r)
                                (statusCode rw') (elapsed env)\<rparr>)"
  using assms by (simp add: AccessLogMiddleware_def Let_def)

lemma AccessLogMiddleware_Panicked:
  assumes "next env r (wrap w) srv = Panicked p (rw', srv1)"
  shows "AccessLogMiddleware next env r w srv = Panicked p (ResponseWriter rw', srv1)"
  using assms by (simp add: AccessLogMiddleware_def Let_def)

lemma AccessLogMiddleware_timestamp:
  assumes "metrics (snd (state (next env r (wrap w) srv))) = metrics srv"
  shows "appStartTimestamp (metrics (snd (state (AccessLogMiddleware next env r w srv))))
           = appStartTimestamp (metrics srv)"
proof (cases "next env r (wrap w) srv")
  case (Returned x)
  obtain rw' srv1 where x: "x = (rw', srv1)" by (cases x)
  show ?thesis
    using assms
    unfolding AccessLogMiddleware_Returned[of "next" env r w srv rw' srv1, OF Returned[unfolded x]]
      Returned x
    by (simp add: RecordRequest_appStartTimestamp)
next
  case (Panicked p x)
  obtain rw' srv1 where x: "x = (rw', srv1)" by (cases x)
  show ?thesis
    using assms
    unfolding AccessLogMiddleware_Panicked[of "next" env r w srv p rw' srv1, OF Panicked[unfolded x]]
      Panicked x
    by simp
qed

lemma serve_dispatched:
  assumes "dispatched r" "mux (EscapedPath r) = Some h"
  shows "serve env r srv =
           (case AccessLogMiddleware h env r new_response srv of
              Returned (w, srv') \<Rightarrow> (Reply w, srv')
            | Panicked p (w, srv') \<Rightarrow>
                (Aborted p w,
                 srv'\<lparr>stderr := stderr srv'
                        @ [log_time env @ '' http: panic serving '' @ RemoteAddr r @ '': '' @ p
                           @ ''\<newline>'' @ goroutine_stack env @ ''\<newline>'']\<rparr>))"
  using assms by (auto simp: serve_def dispatched_def Let_def)

lemma serve_timestamp:
  "appStartTimestamp (metrics (snd (serve env r srv))) = appStartTimestamp (metrics srv)"
proof -
  have "appStartTimestamp (metrics (snd
          (case AccessLogMiddleware h env r new_response srv of
              Returned (w, srv') \<Rightarrow> (Reply w, srv')
            | Panicked p (w, srv') \<Rightarrow>
                (Aborted p w,
                 srv'\<lparr>stderr := stderr srv'
                        @ [log_time env @ '' http: panic serving '' @ RemoteAddr r @ '': '' @ p
                           @ ''\<newline>'' @ goroutine_stack env @ ''\<newline>'']\<rparr>))))
        = appStartTimestamp (metrics srv)"
    if "mux p = Some h" for p h
    using AccessLogMiddleware_timestamp[of h env r new_response srv] mux_metrics[OF that]
    by (cases "AccessLogMiddleware h env r new_response srv") (auto split: prod.splits)
  then show ?thesis
    by (auto simp: serve_def Let_def split: option.splits)
qed

lemma guard_rejects:
  assumes "URL_Path r \<notin> set served_routes" "mux p = Some h"
  shows "h env r w srv = map_outcome (\<lambda>w'. (w', srv)) (http_NotFound w)"
  using assms
  by (auto simp: served_routes_def mux_def Let_def ForwardToBackend_def VersionHandler_def
      LivenessHandler_def ReadinessHandler_def MetricsHandler_def split: if_splits)

lemma ForwardToBackend_response:
  assumes "URL_Path r = ''/''"
    and "NewRequest_error env (Method r) (backendURL srv) = None"
    and "client_Do env (outbound_request r (backendURL srv)) = Inr resp"
  shows "ForwardToBackend env r w srv =
           (case WriteHeader
                   (w\<lparr>ResponseWriter := (ResponseWriter w)
                        \<lparr>hdr := Add_all (resp_Header resp) (hdr (ResponseWriter w))\<rparr>\<rparr>)
                   (StatusCode resp) of
              Panicked p w2 \<Rightarrow> Panicked p (w2, srv)
            | Returned w2 \<Rightarrow>
                Returned
                  (Write w2 (resp_Body resp),
                   case copy_error resp of
                     None \<Rightarrow> srv
                   | Some err \<Rightarrow>
                       srv\<lparr>stderr := stderr srv
                             @ [log_time env @ '' Error copying response body: '' @ err
                                @ ''\<newline>'']\<rparr>))"
  using assms
  by (simp add: ForwardToBackend_def Let_def rw_Add_all split: outcome.splits option.splits)

section \<open>The example states, evaluated\<close>

lemma cleanPath_a: "cleanPath ''/a'' = ''/a''"
  by code_simp

lemma cleanPath_b: "cleanPath ''/b'' = ''/b''"
  by code_simp

lemma cleanPath_version_slash: "cleanPath ''/version/'' = ''/version/''"
  by code_simp

lemma Seconds_exact:
  "Seconds exact_float64 3000000 = 3 / 1000" "Seconds exact_float64 30000000 = 3 / 100"
  by (simp_all add: exact_float64_def)

lemma one_request_fields:
  "totalRequests one_request = [''/a'' \<mapsto> 1]"
  "statusCodes one_request = [''/a'' \<mapsto> [200 \<mapsto> 1]]"
  "requestDurations one_request = [''/a'' \<mapsto> [3 / 1000]]"
  "appStartTimestamp one_request = 0"
  by (simp_all add: one_request_def RecordRequest_fields cleanPath_a NewMetrics_def counter_def
      codes_of_def durations_of_def Seconds_exact)

lemma two_requests_eq: "two_requests = RecordRequest exact_float64 one_request ''/a'' 404 30000000"
  by (simp add: two_requests_def one_request_def record_all_def)

lemma two_requests_fields:
  "totalRequests two_requests = [''/a'' \<mapsto> 2]"
  "statusCodes two_requests = [''/a'' \<mapsto> [200 \<mapsto> 1, 404 \<mapsto> 1]]"
  "requestDurations two_requests = [''/a'' \<mapsto> [3 / 1000, 3 / 100]]"
  "appStartTimestamp two_requests = 0"
  by (simp_all add: two_requests_eq RecordRequest_fields one_request_fields cleanPath_a counter_def
      codes_of_def durations_of_def Seconds_exact)

lemma example_order_valid:
  "range_valid example_order two_requests"
  by (auto simp: range_valid_def example_order_def visits_def two_requests_fields codes_of_def)

lemma one_order_valid:
  "range_valid one_order one_request"
  by (auto simp: range_valid_def one_order_def visits_def one_request_fields codes_of_def)

lemma canonical_examples:
  "http_cleanPath ''/unknown/path'' = ''/unknown/path''"
  "http_cleanPath ''/version/'' = ''/version/''"
  "http_cleanPath ''/metrics'' = ''/metrics''"
  "http_cleanPath ''/'' = ''/''"
  "http_cleanPath ''//version'' = ''/version''"
  by code_simp+

lemma segments_examples:
  "map pathUnescape (split_slash (tl ''/unknown/path'')) = [''unknown'', ''path'']"
  "map pathUnescape (split_slash (tl ''/version/'')) = [''version'', []]"
  "map pathUnescape (split_slash (tl ''/metrics'')) = [''metrics'']"
  "map pathUnescape (split_slash (tl ''/'')) = [[]]"
  by code_simp+

lemma mux_examples:
  "mux ''/unknown/path'' = Some ForwardToBackend"
  "mux ''/version/'' = Some ForwardToBackend"
  "mux ''/'' = Some ForwardToBackend"
  "mux ''/metrics'' = Some MetricsHandler"
  unfolding mux_def Let_def segments_examples by simp_all

lemma dispatched_examples:
  "dispatched (example_request ''/version/'')"
  "dispatched (example_request ''/'')"
  "dispatched (example_request ''/metrics'')"
  by (simp_all add: dispatched_def example_request_def canonical_examples)

lemma fmt_d_99: "fmt_d 99 = ''99''"
  by code_simp

lemma invalid_code_99: "invalid_code 99"
  by (simp add: invalid_code_def)

lemma final_code_201: "final_code 201"
  by (simp add: final_code_def invalid_code_def informational_def StatusSwitchingProtocols_def)

section \<open>The claims of the specification\<close>

text \<open>
  Claim C1. A request for a path outside the five routes is matched by the pattern \<^verbatim>\<open>/\<close>
  and runs \<^verbatim>\<open>ForwardToBackend\<close>, whose path check answers with \<^verbatim>\<open>http.NotFound\<close>. The status
  is 404, but the body is the plain text \<^verbatim>\<open>404 page not found\<close> and not the JSON document of
  \<^verbatim>\<open>NotFoundHandler\<close>. \<^verbatim>\<open>NotFoundHandler\<close> itself writes that document, and \<^verbatim>\<open>main\<close> registers
  it for no pattern. The code evaluated at the path \<^verbatim>\<open>/unknown/path\<close>:
\<close>

theorem unknown_path_reply:
  "fst (serve env (r\<lparr>RequestURI := ''/unknown/path'', URL_Path := ''/unknown/path'',
                      EscapedPath := ''/unknown/path''\<rparr>) srv)
     = Reply \<lparr>hdr = [''Content-Type'' \<mapsto> [''text/plain; charset=utf-8''],
                      ''X-Content-Type-Options'' \<mapsto> [''nosniff'']],
               sent_1xx = [],
               sent = Some (StatusNotFound,
                        [''Content-Type'' \<mapsto> [''text/plain; charset=utf-8''],
                         ''X-Content-Type-Options'' \<mapsto> [''nosniff'']]),
               body = ''404 page not found\<newline>''\<rparr>
   \<and> ''404 page not found\<newline>'' \<noteq> NotFoundHandler_body ''/unknown/path''
   \<and> body (ResponseWriter (fst (state
         (NotFoundHandler env (r\<lparr>RequestURI := ''/unknown/path'', URL_Path := ''/unknown/path'',
                                  EscapedPath := ''/unknown/path''\<rparr>)
            (wrap new_response) srv)))) = NotFoundHandler_body ''/unknown/path''"
proof -
  let ?r = "r\<lparr>RequestURI := ''/unknown/path'', URL_Path := ''/unknown/path'',
               EscapedPath := ''/unknown/path''\<rparr>"
  have u: "URL_Path ?r \<notin> set served_routes"
    by (simp add: served_routes_def)
  have d: "dispatched ?r"
    by (simp add: dispatched_def canonical_examples)
  have m: "mux (EscapedPath ?r) = Some ForwardToBackend"
    by (simp add: mux_examples)
  have h: "ForwardToBackend env ?r (wrap new_response) srv
           = Returned (state (http_NotFound (wrap new_response)), srv)"
    unfolding guard_rejects[OF u m] http_NotFound_fresh by simp
  have e: "fst (serve env ?r srv) = Reply (ResponseWriter (state (http_NotFound (wrap new_response))))"
    unfolding serve_dispatched[OF d m]
      AccessLogMiddleware_Returned[of ForwardToBackend env ?r new_response srv, OF h]
    by simp
  have b: "''404 page not found\<newline>'' \<noteq> NotFoundHandler_body ''/unknown/path''"
    by (simp add: NotFoundHandler_body_def)
  have n: "body (ResponseWriter (fst (state (NotFoundHandler env ?r (wrap new_response) srv))))
           = NotFoundHandler_body ''/unknown/path''"
    by (simp add: NotFoundHandler_def Let_def WriteHeader_final final_code_constants wrap_fresh
          rw_Header_Set_def wrap_def new_response_def Write_def response_Write_def)
  show ?thesis
    unfolding e http_NotFound_fresh using b n by simp
qed

text \<open>
  Claim C2, as stated, at a handler that calls \<^verbatim>\<open>WriteHeader(404)\<close> and then
  \<^verbatim>\<open>WriteHeader(500)\<close>: both calls return, and the wrapper holds 500, not 404, the argument
  of the first call (which is the status the sink has sent).
\<close>

theorem captured_status_counterexample:
  "run_calls (wrap new_response) [CallWriteHeader 404, CallWriteHeader 500]
     = Returned (state (run_calls (wrap new_response) [CallWriteHeader 404, CallWriteHeader 500]))
   \<and> statusCode (state (run_calls (wrap new_response) [CallWriteHeader 404, CallWriteHeader 500])) = 500
   \<and> first_WriteHeader_status [CallWriteHeader 404, CallWriteHeader 500] = 404
   \<and> statusCode (state (run_calls (wrap new_response) [CallWriteHeader 404, CallWriteHeader 500]))
       \<noteq> first_WriteHeader_status [CallWriteHeader 404, CallWriteHeader 500]
   \<and> status_sent (ResponseWriter
         (state (run_calls (wrap new_response) [CallWriteHeader 404, CallWriteHeader 500]))) = 404"
  by (simp add: first_WriteHeader_status_def WriteHeader_args_def WriteHeader_def wrap_def Let_def
      new_response_def response_WriteHeader_def status_sent_def invalid_code_def informational_def)

text \<open>
  Claim C2, amended. \<^verbatim>\<open>WriteHeader\<close> of the wrapper stores its argument at every call. After
  any run of a handler the captured status is 200 if the handler never called
  \<^verbatim>\<open>WriteHeader\<close>, and otherwise the argument of the last call it made (every call of the
  run if the run returns, the calls up to the panicking one if it panics); it is the
  argument of the first call whenever the handler calls \<^verbatim>\<open>WriteHeader\<close> at most once.
\<close>

theorem captured_status_is_last:
  "statusCode (state (run_calls (wrap w) calls))
     = last (StatusOK # WriteHeader_args (calls_made (wrap w) calls))
   \<and> (run_calls (wrap w) calls = Returned (state (run_calls (wrap w) calls)) \<longrightarrow>
        calls_made (wrap w) calls = calls)
   \<and> (WriteHeader_args (calls_made (wrap w) calls) = [] \<longrightarrow>
        statusCode (state (run_calls (wrap w) calls)) = StatusOK)
   \<and> (length (WriteHeader_args (calls_made (wrap w) calls)) \<le> 1 \<longrightarrow>
        statusCode (state (run_calls (wrap w) calls))
          = first_WriteHeader_status (calls_made (wrap w) calls))"
proof -
  let ?made = "calls_made (wrap w) calls"
  have l: "statusCode (state (run_calls (wrap w) calls)) = last (StatusOK # WriteHeader_args ?made)"
    using statusCode_calls[of "wrap w" calls] by (simp add: wrap_def)
  have f: "statusCode (state (run_calls (wrap w) calls)) = first_WriteHeader_status ?made"
    if "length (WriteHeader_args ?made) \<le> 1"
    using that unfolding l first_WriteHeader_status_def
    by (cases "WriteHeader_args ?made") simp_all
  have m: "?made = calls" if "run_calls (wrap w) calls = Returned (state (run_calls (wrap w) calls))"
    using that by (rule calls_made_Returned)
  from l f m show ?thesis by simp
qed

theorem captured_status_is_last_witness:
  "statusCode (state (run_calls (wrap new_response) [CallWriteHeader 404, CallWriteHeader 500])) = 500
   \<and> calls_made (wrap new_response) [CallWriteHeader 404, CallWriteHeader 500]
       = [CallWriteHeader 404, CallWriteHeader 500]
   \<and> WriteHeader_args (calls_made (wrap new_response)
         [CallHeaderSet ''Content-Type'' ''text/plain'', CallWrite ''ok'']) = []
   \<and> statusCode (state (run_calls (wrap new_response)
        [CallHeaderSet ''Content-Type'' ''text/plain'', CallWrite ''ok''])) = StatusOK
   \<and> length (WriteHeader_args (calls_made (wrap new_response)
        [CallWriteHeader 404, CallWrite ''gone''])) \<le> 1
   \<and> statusCode (state (run_calls (wrap new_response) [CallWriteHeader 404, CallWrite ''gone''])) = 404
   \<and> calls_made (wrap new_response) [CallWriteHeader 99, CallWriteHeader 500] = [CallWriteHeader 99]
   \<and> statusCode (state (run_calls (wrap new_response) [CallWriteHeader 99, CallWriteHeader 500])) = 99"
proof -
  note a = captured_status_is_last[of new_response "[CallWriteHeader 404, CallWriteHeader 500]"]
  note b = captured_status_is_last[of new_response "[CallHeaderSet ''Content-Type'' ''text/plain'', CallWrite ''ok'']"]
  note c = captured_status_is_last[of new_response "[CallWriteHeader 404, CallWrite ''gone'']"]
  note d = captured_status_is_last[of new_response "[CallWriteHeader 99, CallWriteHeader 500]"]
  have defs: "wrap new_response = \<lparr>ResponseWriter = \<lparr>hdr = Map.empty, sent_1xx = [], sent = None, body = []\<rparr>,
                                   statusCode = 200\<rparr>"
    by (simp add: wrap_def new_response_def StatusOK_def)
  have ma: "calls_made (wrap new_response) [CallWriteHeader 404, CallWriteHeader 500]
              = [CallWriteHeader 404, CallWriteHeader 500]"
    and mb: "calls_made (wrap new_response) [CallHeaderSet ''Content-Type'' ''text/plain'', CallWrite ''ok'']
              = [CallHeaderSet ''Content-Type'' ''text/plain'', CallWrite ''ok'']"
    and mc: "calls_made (wrap new_response) [CallWriteHeader 404, CallWrite ''gone'']
              = [CallWriteHeader 404, CallWrite ''gone'']"
    and md: "calls_made (wrap new_response) [CallWriteHeader 99, CallWriteHeader 500] = [CallWriteHeader 99]"
    by (simp_all add: defs WriteHeader_def Let_def response_WriteHeader_def invalid_code_def
        informational_def StatusSwitchingProtocols_def)
  have ea: "WriteHeader_args [CallWriteHeader 404, CallWriteHeader 500] = [404, 500]"
    and eb: "WriteHeader_args [CallHeaderSet ''Content-Type'' ''text/plain'', CallWrite ''ok''] = []"
    and ec: "WriteHeader_args [CallWriteHeader 404, CallWrite ''gone''] = [404]"
    and ed: "WriteHeader_args [CallWriteHeader 99] = [99]"
    by (simp_all add: WriteHeader_args_def)
  from a have 1: "statusCode (state (run_calls (wrap new_response) [CallWriteHeader 404, CallWriteHeader 500])) = 500"
    unfolding ma ea by simp
  from b have 2: "statusCode (state (run_calls (wrap new_response)
        [CallHeaderSet ''Content-Type'' ''text/plain'', CallWrite ''ok''])) = StatusOK"
    unfolding mb eb by simp
  from c have 3: "statusCode (state (run_calls (wrap new_response) [CallWriteHeader 404, CallWrite ''gone''])) = 404"
    unfolding mc ec first_WriteHeader_status_def by simp
  from d have 4: "statusCode (state (run_calls (wrap new_response) [CallWriteHeader 99, CallWriteHeader 500])) = 99"
    unfolding md ed by simp
  have 5: "WriteHeader_args (calls_made (wrap new_response)
         [CallHeaderSet ''Content-Type'' ''text/plain'', CallWrite ''ok'']) = []"
    unfolding mb eb ..
  have 6: "length (WriteHeader_args (calls_made (wrap new_response)
        [CallWriteHeader 404, CallWrite ''gone''])) \<le> 1"
    unfolding mc ec by simp
  show ?thesis by (intro conjI 1 ma 5 2 6 3 md 4)
qed

text \<open>
  Claim C3. The bucket boundaries are the eleven fixed ones. Observing one more duration
  \<open>d\<close> adds exactly 1 to the count of every finite bucket whose boundary \<open>b\<close> satisfies
  \<open>d <= b\<close>, adds nothing to the other finite buckets, adds exactly 1 to the \<^verbatim>\<open>+Inf\<close> bucket,
  and adds \<open>d\<close> to the sum. So the block rendered for a path shows, for each boundary, the
  number of its durations that are at most the boundary, then the number of all its
  durations in the \<^verbatim>\<open>+Inf\<close> bucket, then their sum and their count; and this block is part
  of the rendering for every path that has durations.
\<close>

theorem histogram_cumulative:
  "buckets ops = map (f_const ops) [0.005, 0.01, 0.025, 0.05, 0.1, 0.25, 0.5, 1, 2.5, 5, 10]
   \<and> fst (histogram ops (ds @ [d])) =
       map2 (+) (fst (histogram ops ds)) (map (\<lambda>b. if f_le ops d b then 1 else 0) (buckets ops) @ [1])
   \<and> snd (histogram ops (ds @ [d])) = f_add ops (snd (histogram ops ds)) d
   \<and> histogram_lines ops path ds =
       map (\<lambda>b. DurationBucket path (Some b) (of_nat (length (filter (\<lambda>d. f_le ops d b) ds))))
         (buckets ops)
       @ [DurationBucket path None (of_nat (length ds)),
          DurationSum path (foldl (f_add ops) (f_zero ops) ds),
          DurationCount path (of_nat (length ds))]
   \<and> (range_valid ord m \<and> requestDurations m path = Some ds \<longrightarrow>
        set (histogram_lines ops path ds) \<subseteq> set (GetPrometheusMetrics_lines ops ver now ord m))"
proof -
  have len: "length (fst (histogram ops ds)) = Suc (length (buckets ops))"
    by (simp add: histogram_closed)
  have step: "histogram ops (ds @ [d]) =
      (map2 (+) (fst (histogram ops ds)) (map (\<lambda>b. if f_le ops d b then 1 else 0) (buckets ops) @ [1]),
       f_add ops (snd (histogram ops ds)) d)"
    unfolding histogram_snoc
    using observe_closed[OF len, of "snd (histogram ops ds)" d] by simp
  have inc: "set (histogram_lines ops path ds) \<subseteq> set (GetPrometheusMetrics_lines ops ver now ord m)"
    if v: "range_valid ord m" and s: "requestDurations m path = Some ds"
  proof -
    from v s have "path \<in> set (range_requestDurations ord)"
      by (auto simp: range_valid_def visits_def)
    with s have "set (histogram_lines ops path ds) \<subseteq> set (histogram_part ops ord m)"
      by (force simp: histogram_part_def)
    then show ?thesis unfolding lines_parts by auto
  qed
  show ?thesis
    using inc by (simp only: step fst_conv snd_conv histogram_lines_closed buckets_def simp_thms) blast
qed

theorem histogram_cumulative_witness:
  "range_valid one_order one_request
   \<and> requestDurations one_request ''/a'' = Some [3 / 1000]
   \<and> set (histogram_lines exact_float64 ''/a'' [3 / 1000])
       \<subseteq> set (GetPrometheusMetrics_lines exact_float64 ''1.0.0'' 60 one_order one_request)
   \<and> fst (histogram exact_float64 ([3 / 1000] @ [3 / 100])) = [1, 1, 1, 2, 2, 2, 2, 2, 2, 2, 2, 2]
   \<and> snd (histogram exact_float64 ([3 / 1000] @ [3 / 100])) = 33 / 1000"
proof -
  note t = histogram_cumulative[of exact_float64 "[3 / 1000]" "3 / 100" "''/a''" one_order
        one_request "''1.0.0''" 60]
  have s: "requestDurations one_request ''/a'' = Some [3 / 1000]"
    by (simp add: one_request_fields)
  have h: "fst (histogram exact_float64 [3 / 1000]) = [1, 1, 1, 1, 1, 1, 1, 1, 1, 1, 1, 1]"
    "snd (histogram exact_float64 [3 / 1000]) = 3 / 1000"
    by (simp_all add: histogram_closed buckets_def exact_float64_def)
  from t have "fst (histogram exact_float64 ([3 / 1000] @ [3 / 100]))
      = map2 (+) (fst (histogram exact_float64 [3 / 1000]))
          (map (\<lambda>b. if f_le exact_float64 (3 / 100) b then 1 else 0) (buckets exact_float64) @ [1])"
    by (elim conjE)
  then have a: "fst (histogram exact_float64 ([3 / 1000] @ [3 / 100])) = [1, 1, 1, 2, 2, 2, 2, 2, 2, 2, 2, 2]"
    unfolding h by (simp add: buckets_def exact_float64_def)
  from t have "snd (histogram exact_float64 ([3 / 1000] @ [3 / 100]))
      = f_add exact_float64 (snd (histogram exact_float64 [3 / 1000])) (3 / 100)"
    by (elim conjE)
  then have b: "snd (histogram exact_float64 ([3 / 1000] @ [3 / 100])) = 33 / 1000"
    unfolding h by (simp add: exact_float64_def)
  from t one_order_valid s
  have c: "set (histogram_lines exact_float64 ''/a'' [3 / 1000])
       \<subseteq> set (GetPrometheusMetrics_lines exact_float64 ''1.0.0'' 60 one_order one_request)"
    by (elim conjE impE) (rule conjI)
  show ?thesis
    by (intro conjI one_order_valid s a b c)
qed

text \<open>
  Claim C4. The path key is a function of the raw path alone, and computing the key of a
  key changes nothing. The key is obtained from the runes of the path by keeping each
  ASCII letter, digit and slash and writing an underscore for every other rune, and then
  putting \<open>root\<close> in front when the result is empty or starts with an underscore. The key
  of the empty path is \<open>root\<close>.
\<close>

theorem cleanPath_normalizes:
  "cleanPath (cleanPath p) = cleanPath p
   \<and> cleanPath p =
       (let cp = map (\<lambda>c. if allowed c then char_of c else CHR ''_'') (runes p)
        in if cp = [] \<or> cp ! 0 = CHR ''_'' then ''root'' @ cp else cp)
   \<and> cleanPath [] = ''root''"
proof (intro conjI)
  show "cleanPath (cleanPath p) = cleanPath p"
    by (rule cleanPath_idem)
  show "cleanPath p =
       (let cp = map (\<lambda>c. if allowed c then char_of c else CHR ''_'') (runes p)
        in if cp = [] \<or> cp ! 0 = CHR ''_'' then ''root'' @ cp else cp)"
    unfolding cleanPath_def strings_Map_clean ..
  show "cleanPath [] = ''root''"
    by (simp add: cleanPath_def)
qed

theorem cleanPath_normalizes_witness:
  "cleanPath (cleanPath ''/a?b=1'') = cleanPath ''/a?b=1''
   \<and> cleanPath ''/a?b=1'' = ''/a_b_1''
   \<and> cleanPath ''?q'' = ''root_q''
   \<and> cleanPath [] = ''root''"
  using cleanPath_normalizes[of "''/a?b=1''"] by code_simp

text \<open>
  Claim C5. Let a rendering be taken before and another after \<^verbatim>\<open>RecordRequest\<close> of a raw path
  \<open>p\<close> with status \<open>c\<close> and duration \<open>d\<close>, each with any order of iteration over the maps.
  For the key of \<open>p\<close> the second rendering shows the total-requests counter, the counter
  of status \<open>c\<close> and the histogram count each larger by 1 (in 64-bit arithmetic; a missing
  line counts as 0), and the histogram sum with \<open>d\<close> in seconds added.
\<close>

theorem record_then_render:
  assumes "range_valid ord m" and "range_valid ord' (RecordRequest ops m p c d)"
  shows "requests_total_of (GetPrometheusMetrics_lines ops ver' now' ord' (RecordRequest ops m p c d)) (cleanPath p)
           = [shown (requests_total_of (GetPrometheusMetrics_lines ops ver now ord m) (cleanPath p)) + 1]
       \<and> response_status_of (GetPrometheusMetrics_lines ops ver' now' ord' (RecordRequest ops m p c d)) (cleanPath p) c
           = [shown (response_status_of (GetPrometheusMetrics_lines ops ver now ord m) (cleanPath p) c) + 1]
       \<and> duration_count_of (GetPrometheusMetrics_lines ops ver' now' ord' (RecordRequest ops m p c d)) (cleanPath p)
           = [shown (duration_count_of (GetPrometheusMetrics_lines ops ver now ord m) (cleanPath p)) + 1]
       \<and> duration_sum_of (GetPrometheusMetrics_lines ops ver' now' ord' (RecordRequest ops m p c d)) (cleanPath p)
           = [f_add ops (shown_sum ops (duration_sum_of (GetPrometheusMetrics_lines ops ver now ord m) (cleanPath p)))
                (Seconds ops d)]"
  unfolding rendered[OF assms(1)] rendered[OF assms(2)]
  by (simp add: RecordRequest_fields codes_of_def counter_def durations_of_def shown_def shown_sum_def
        split: option.splits)

theorem record_then_render_witness:
  "range_valid one_order one_request
   \<and> range_valid example_order (RecordRequest exact_float64 one_request ''/a'' 404 30000000)
   \<and> requests_total_of (GetPrometheusMetrics_lines exact_float64 ''1.0.0'' 61 example_order
        (RecordRequest exact_float64 one_request ''/a'' 404 30000000)) (cleanPath ''/a'') = [2]
   \<and> response_status_of (GetPrometheusMetrics_lines exact_float64 ''1.0.0'' 61 example_order
        (RecordRequest exact_float64 one_request ''/a'' 404 30000000)) (cleanPath ''/a'') 404 = [1]
   \<and> duration_count_of (GetPrometheusMetrics_lines exact_float64 ''1.0.0'' 61 example_order
        (RecordRequest exact_float64 one_request ''/a'' 404 30000000)) (cleanPath ''/a'') = [2]
   \<and> duration_sum_of (GetPrometheusMetrics_lines exact_float64 ''1.0.0'' 61 example_order
        (RecordRequest exact_float64 one_request ''/a'' 404 30000000)) (cleanPath ''/a'') = [33 / 1000]"
proof -
  have v': "range_valid example_order (RecordRequest exact_float64 one_request ''/a'' 404 30000000)"
    using example_order_valid by (simp add: two_requests_eq)
  note t = record_then_render[OF one_order_valid v', of "''1.0.0''" 61 "''1.0.0''" 60]
  have before:
    "requests_total_of (GetPrometheusMetrics_lines exact_float64 ''1.0.0'' 60 one_order one_request) (cleanPath ''/a'') = [1]"
    "response_status_of (GetPrometheusMetrics_lines exact_float64 ''1.0.0'' 60 one_order one_request) (cleanPath ''/a'') 404 = []"
    "duration_count_of (GetPrometheusMetrics_lines exact_float64 ''1.0.0'' 60 one_order one_request) (cleanPath ''/a'') = [1]"
    "duration_sum_of (GetPrometheusMetrics_lines exact_float64 ''1.0.0'' 60 one_order one_request) (cleanPath ''/a'') = [3 / 1000]"
    by (simp_all add: rendered[OF one_order_valid] cleanPath_a one_request_fields codes_of_def exact_float64_def)
  from t have "requests_total_of (GetPrometheusMetrics_lines exact_float64 ''1.0.0'' 61 example_order
        (RecordRequest exact_float64 one_request ''/a'' 404 30000000)) (cleanPath ''/a'') = [2]"
    unfolding before by (simp add: shown_def)
  moreover from t have "response_status_of (GetPrometheusMetrics_lines exact_float64 ''1.0.0'' 61 example_order
        (RecordRequest exact_float64 one_request ''/a'' 404 30000000)) (cleanPath ''/a'') 404 = [1]"
    unfolding before by (simp add: shown_def)
  moreover from t have "duration_count_of (GetPrometheusMetrics_lines exact_float64 ''1.0.0'' 61 example_order
        (RecordRequest exact_float64 one_request ''/a'' 404 30000000)) (cleanPath ''/a'') = [2]"
    unfolding before by (simp add: shown_def)
  moreover from t have "duration_sum_of (GetPrometheusMetrics_lines exact_float64 ''1.0.0'' 61 example_order
        (RecordRequest exact_float64 one_request ''/a'' 404 30000000)) (cleanPath ''/a'') = [33 / 1000]"
    unfolding before by (simp add: shown_sum_def Seconds_exact) (simp add: exact_float64_def)
  ultimately show ?thesis using one_order_valid v' by (intro conjI)
qed

text \<open>
  Claim C6. In every state reached from \<^verbatim>\<open>NewMetrics\<close> by calls of \<^verbatim>\<open>RecordRequest\<close>, each key
  of \<open>totalRequests\<close> is a key of \<open>statusCodes\<close> and of \<open>requestDurations\<close>; and one call of
  \<^verbatim>\<open>RecordRequest\<close>, which is one step of the model as it is one critical section of the
  mutex, leaves the key of its path in all three maps.
\<close>

theorem maps_updated_together:
  "dom (totalRequests (record_all ops now calls)) \<subseteq> dom (statusCodes (record_all ops now calls))
   \<and> dom (totalRequests (record_all ops now calls)) \<subseteq> dom (requestDurations (record_all ops now calls))
   \<and> cleanPath p \<in> dom (totalRequests (RecordRequest ops m p c d))
   \<and> cleanPath p \<in> dom (statusCodes (RecordRequest ops m p c d))
   \<and> cleanPath p \<in> dom (requestDurations (RecordRequest ops m p c d))"
proof -
  have "dom (statusCodes (record_all ops now calls)) = dom (totalRequests (record_all ops now calls))"
    and "dom (requestDurations (record_all ops now calls)) = dom (totalRequests (record_all ops now calls))"
    using record_all_doms[of ops now calls] by blast+
  moreover have "cleanPath p \<in> dom (totalRequests (RecordRequest ops m p c d))"
    and "cleanPath p \<in> dom (statusCodes (RecordRequest ops m p c d))"
    and "cleanPath p \<in> dom (requestDurations (RecordRequest ops m p c d))"
    by (simp_all add: RecordRequest_fields)
  ultimately show ?thesis by simp
qed

theorem maps_updated_together_witness:
  "dom (totalRequests two_requests) \<subseteq> dom (statusCodes two_requests)
   \<and> dom (totalRequests two_requests) \<subseteq> dom (requestDurations two_requests)
   \<and> dom (totalRequests two_requests) = {''/a''}
   \<and> ''/b'' \<in> dom (totalRequests (RecordRequest exact_float64 two_requests ''/b'' 200 1000))
   \<and> ''/b'' \<in> dom (statusCodes (RecordRequest exact_float64 two_requests ''/b'' 200 1000))
   \<and> ''/b'' \<in> dom (requestDurations (RecordRequest exact_float64 two_requests ''/b'' 200 1000))"
  using maps_updated_together[of exact_float64 0 "[(''/a'', 200, 3000000), (''/a'', 404, 30000000)]"
      "''/b''" two_requests 200 1000]
  by (simp add: cleanPath_b two_requests_def[symmetric] two_requests_fields)

text \<open>
  Claim C7, as stated, at a backend that answers with the status code 099: \<^verbatim>\<open>client.Do\<close>
  returns this response without an error, the headers are copied, and \<^verbatim>\<open>WriteHeader(99)\<close>
  panics in the sink. No status is sent, so the status of the backend is not written.
\<close>

theorem ForwardToBackend_status_counterexample:
  "URL_Path (example_request ''/'') = ''/''
   \<and> NewRequest_error (example_environ (\<lambda>_ _. None) (\<lambda>_. Inr bad_status_response))
         (Method (example_request ''/'')) (backendURL example_server) = None
   \<and> client_Do (example_environ (\<lambda>_ _. None) (\<lambda>_. Inr bad_status_response))
         (outbound_request (example_request ''/'') (backendURL example_server))
       = Inr bad_status_response
   \<and> StatusCode bad_status_response = 99
   \<and> ForwardToBackend (example_environ (\<lambda>_ _. None) (\<lambda>_. Inr bad_status_response))
         (example_request ''/'') (wrap new_response) example_server
       = Panicked ''invalid WriteHeader code 99''
           (\<lparr>ResponseWriter =
               \<lparr>hdr = [''X-Served-By'' \<mapsto> [''backend-1'']], sent_1xx = [], sent = None, body = []\<rparr>,
             statusCode = 99\<rparr>,
            example_server)"
proof -
  let ?env = "example_environ (\<lambda>_ _. None) (\<lambda>_. Inr bad_status_response)"
  let ?w1 = "(wrap new_response)\<lparr>ResponseWriter := (ResponseWriter (wrap new_response))
               \<lparr>hdr := Add_all (resp_Header bad_status_response)
                          (hdr (ResponseWriter (wrap new_response)))\<rparr>\<rparr>"
  have p: "URL_Path (example_request ''/'') = ''/''"
    by (simp add: example_request_def)
  have n: "NewRequest_error ?env (Method (example_request ''/'')) (backendURL example_server) = None"
    and d: "client_Do ?env (outbound_request (example_request ''/'') (backendURL example_server))
            = Inr bad_status_response"
    by (simp_all add: example_environ_def)
  have c: "StatusCode bad_status_response = 99"
    by (simp add: bad_status_response_def)
  have h: "Add_all (resp_Header bad_status_response) Map.empty = [''X-Served-By'' \<mapsto> [''backend-1'']]"
    by (simp add: bad_status_response_def Add_all_def Header_Add_def)
  have w1: "?w1 = \<lparr>ResponseWriter =
                     \<lparr>hdr = [''X-Served-By'' \<mapsto> [''backend-1'']], sent_1xx = [], sent = None, body = []\<rparr>,
                   statusCode = StatusOK\<rparr>"
    by (simp add: wrap_def new_response_def h)
  have wh: "WriteHeader ?w1 99 = Panicked (''invalid WriteHeader code '' @ fmt_d 99) (?w1\<lparr>statusCode := 99\<rparr>)"
    by (rule WriteHeader_invalid) (simp_all add: wrap_def new_response_def invalid_code_99)
  have "ForwardToBackend ?env (example_request ''/'') (wrap new_response) example_server
           = Panicked (''invalid WriteHeader code '' @ fmt_d 99) (?w1\<lparr>statusCode := 99\<rparr>, example_server)"
    unfolding ForwardToBackend_response[OF p n d] c wh by simp
  then have f: "ForwardToBackend ?env (example_request ''/'') (wrap new_response) example_server
           = Panicked ''invalid WriteHeader code 99''
               (\<lparr>ResponseWriter =
                   \<lparr>hdr = [''X-Served-By'' \<mapsto> [''backend-1'']], sent_1xx = [], sent = None, body = []\<rparr>,
                 statusCode = 99\<rparr>,
                example_server)"
    unfolding fmt_d_99 w1 by simp
  show ?thesis by (intro conjI p n d c f)
qed

text \<open>
  Claim C7, amended. \<^verbatim>\<open>ForwardToBackend\<close> on the path \<^verbatim>\<open>/\<close>, with nothing sent yet. If the
  request cannot be constructed, the reply is 500 with the error text. If sending fails,
  the reply is 503 with the error text. If the backend answers with a status code that the
  sink takes as a final status (101, or 200 to 999), every value of every header of the
  backend response is added to the headers, then the status of the backend is sent with
  these headers, then the body is copied; an error of the copy adds one line to the log
  and changes neither the status nor anything else.
\<close>

theorem ForwardToBackend_outcomes:
  assumes "URL_Path r = ''/''" and "sent (ResponseWriter w) = None"
  shows
    "(NewRequest_error env (Method r) (backendURL srv) = Some err \<longrightarrow>
        ForwardToBackend env r w srv = Returned (state (ForwardToBackend env r w srv))
        \<and> statusCode (fst (state (ForwardToBackend env r w srv))) = StatusInternalServerError
        \<and> status_sent (ResponseWriter (fst (state (ForwardToBackend env r w srv))))
            = StatusInternalServerError
        \<and> body (ResponseWriter (fst (state (ForwardToBackend env r w srv))))
            = body (ResponseWriter w) @ ''Error creating request: '' @ err @ ''\<newline>''
        \<and> snd (state (ForwardToBackend env r w srv)) = srv)
     \<and> (NewRequest_error env (Method r) (backendURL srv) = None
         \<and> client_Do env (outbound_request r (backendURL srv)) = Inl err \<longrightarrow>
        ForwardToBackend env r w srv = Returned (state (ForwardToBackend env r w srv))
        \<and> statusCode (fst (state (ForwardToBackend env r w srv))) = StatusServiceUnavailable
        \<and> status_sent (ResponseWriter (fst (state (ForwardToBackend env r w srv))))
            = StatusServiceUnavailable
        \<and> body (ResponseWriter (fst (state (ForwardToBackend env r w srv))))
            = body (ResponseWriter w) @ ''Error forwarding to backend: '' @ err @ ''\<newline>''
        \<and> snd (state (ForwardToBackend env r w srv)) = srv)
     \<and> (NewRequest_error env (Method r) (backendURL srv) = None
         \<and> client_Do env (outbound_request r (backendURL srv)) = Inr resp
         \<and> final_code (StatusCode resp) \<longrightarrow>
        ForwardToBackend env r w srv = Returned (state (ForwardToBackend env r w srv))
        \<and> statusCode (fst (state (ForwardToBackend env r w srv))) = StatusCode resp
        \<and> sent (ResponseWriter (fst (state (ForwardToBackend env r w srv))))
            = Some (StatusCode resp, Add_all (resp_Header resp) (hdr (ResponseWriter w)))
        \<and> (\<forall>name values v. (name, values) \<in> set (resp_Header resp) \<and> v \<in> set values \<longrightarrow>
              (\<exists>vs. Add_all (resp_Header resp) (hdr (ResponseWriter w)) name = Some vs \<and> v \<in> set vs))
        \<and> body (ResponseWriter (fst (state (ForwardToBackend env r w srv))))
            = body (ResponseWriter w) @ resp_Body resp
        \<and> stderr (snd (state (ForwardToBackend env r w srv)))
            = stderr srv @ (case copy_error resp of
                               None \<Rightarrow> []
                             | Some e \<Rightarrow> [log_time env @ '' Error copying response body: '' @ e @ ''\<newline>''])
        \<and> (snd (state (ForwardToBackend env r w srv)))\<lparr>stderr := stderr srv\<rparr> = srv)"
proof (intro conjI impI)
  assume "NewRequest_error env (Method r) (backendURL srv) = Some err"
  then have e: "ForwardToBackend env r w srv
      = map_outcome (\<lambda>w'. (w', srv))
          (http_Error w (''Error creating request: '' @ err) StatusInternalServerError)"
    using assms(1) by (simp add: ForwardToBackend_def)
  show "ForwardToBackend env r w srv = Returned (state (ForwardToBackend env r w srv))"
    "statusCode (fst (state (ForwardToBackend env r w srv))) = StatusInternalServerError"
    "status_sent (ResponseWriter (fst (state (ForwardToBackend env r w srv))))
            = StatusInternalServerError"
    "body (ResponseWriter (fst (state (ForwardToBackend env r w srv))))
            = body (ResponseWriter w) @ ''Error creating request: '' @ err @ ''\<newline>''"
    "snd (state (ForwardToBackend env r w srv)) = srv"
    unfolding e http_Error_fresh[OF assms(2) final_code_constants(3)]
    by (simp_all add: status_sent_def)
next
  assume "NewRequest_error env (Method r) (backendURL srv) = None
         \<and> client_Do env (outbound_request r (backendURL srv)) = Inl err"
  then have e: "ForwardToBackend env r w srv
      = map_outcome (\<lambda>w'. (w', srv))
          (http_Error w (''Error forwarding to backend: '' @ err) StatusServiceUnavailable)"
    using assms(1) by (simp add: ForwardToBackend_def)
  show "ForwardToBackend env r w srv = Returned (state (ForwardToBackend env r w srv))"
    "statusCode (fst (state (ForwardToBackend env r w srv))) = StatusServiceUnavailable"
    "status_sent (ResponseWriter (fst (state (ForwardToBackend env r w srv))))
            = StatusServiceUnavailable"
    "body (ResponseWriter (fst (state (ForwardToBackend env r w srv))))
            = body (ResponseWriter w) @ ''Error forwarding to backend: '' @ err @ ''\<newline>''"
    "snd (state (ForwardToBackend env r w srv)) = srv"
    unfolding e http_Error_fresh[OF assms(2) final_code_constants(4)]
    by (simp_all add: status_sent_def)
next
  assume a: "NewRequest_error env (Method r) (backendURL srv) = None
         \<and> client_Do env (outbound_request r (backendURL srv)) = Inr resp
         \<and> final_code (StatusCode resp)"
  let ?w1 = "w\<lparr>ResponseWriter := (ResponseWriter w)
               \<lparr>hdr := Add_all (resp_Header resp) (hdr (ResponseWriter w))\<rparr>\<rparr>"
  have f: "sent (ResponseWriter ?w1) = None" using assms(2) by simp
  from a have fc: "final_code (StatusCode resp)" by blast
  have e: "ForwardToBackend env r w srv =
      Returned
        (Write (?w1\<lparr>statusCode := StatusCode resp,
                    ResponseWriter := (ResponseWriter ?w1)
                      \<lparr>sent := Some (StatusCode resp, hdr (ResponseWriter ?w1))\<rparr>\<rparr>) (resp_Body resp),
         case copy_error resp of None \<Rightarrow> srv
         | Some e \<Rightarrow> srv\<lparr>stderr := stderr srv @ [log_time env @ '' Error copying response body: '' @ e @ ''\<newline>'']\<rparr>)"
    using a assms(1)
    by (simp add: ForwardToBackend_response[of r env srv resp] WriteHeader_final[OF f fc])
  show "ForwardToBackend env r w srv = Returned (state (ForwardToBackend env r w srv))"
    "statusCode (fst (state (ForwardToBackend env r w srv))) = StatusCode resp"
    "sent (ResponseWriter (fst (state (ForwardToBackend env r w srv))))
            = Some (StatusCode resp, Add_all (resp_Header resp) (hdr (ResponseWriter w)))"
    "body (ResponseWriter (fst (state (ForwardToBackend env r w srv))))
            = body (ResponseWriter w) @ resp_Body resp"
    unfolding e by (simp_all add: Write_def response_Write_def)
  show "stderr (snd (state (ForwardToBackend env r w srv)))
            = stderr srv @ (case copy_error resp of
                               None \<Rightarrow> []
                             | Some e \<Rightarrow> [log_time env @ '' Error copying response body: '' @ e @ ''\<newline>''])"
    "(snd (state (ForwardToBackend env r w srv)))\<lparr>stderr := stderr srv\<rparr> = srv"
    unfolding e by (simp_all split: option.splits)
  show "\<forall>name values v. (name, values) \<in> set (resp_Header resp) \<and> v \<in> set values \<longrightarrow>
              (\<exists>vs. Add_all (resp_Header resp) (hdr (ResponseWriter w)) name = Some vs \<and> v \<in> set vs)"
    using Add_all_copies by blast
qed

theorem ForwardToBackend_outcomes_witness:
  "URL_Path (example_request ''/'') = ''/''
   \<and> sent (ResponseWriter (wrap new_response)) = None
   \<and> final_code (StatusCode example_response)
   \<and> statusCode (fst (state (ForwardToBackend (example_environ (\<lambda>_ _. Some ''net/http: invalid method'') (\<lambda>_. Inl []))
        (example_request ''/'') (wrap new_response) example_server))) = 500
   \<and> body (ResponseWriter (fst (state (ForwardToBackend
        (example_environ (\<lambda>_ _. Some ''net/http: invalid method'') (\<lambda>_. Inl []))
        (example_request ''/'') (wrap new_response) example_server))))
       = ''Error creating request: net/http: invalid method\<newline>''
   \<and> statusCode (fst (state (ForwardToBackend (example_environ (\<lambda>_ _. None) (\<lambda>_. Inl ''connection refused''))
        (example_request ''/'') (wrap new_response) example_server))) = 503
   \<and> body (ResponseWriter (fst (state (ForwardToBackend
        (example_environ (\<lambda>_ _. None) (\<lambda>_. Inl ''connection refused''))
        (example_request ''/'') (wrap new_response) example_server))))
       = ''Error forwarding to backend: connection refused\<newline>''
   \<and> sent (ResponseWriter (fst (state (ForwardToBackend (example_environ (\<lambda>_ _. None) (\<lambda>_. Inr example_response))
        (example_request ''/'') (wrap new_response) example_server))))
       = Some (201, [''X-Served-By'' \<mapsto> [''backend-1'']])
   \<and> body (ResponseWriter (fst (state (ForwardToBackend (example_environ (\<lambda>_ _. None) (\<lambda>_. Inr example_response))
        (example_request ''/'') (wrap new_response) example_server)))) = ''partial''
   \<and> stderr (snd (state (ForwardToBackend (example_environ (\<lambda>_ _. None) (\<lambda>_. Inr example_response))
        (example_request ''/'') (wrap new_response) example_server)))
       = [''2025/01/01 00:00:00 Error copying response body: unexpected EOF\<newline>'']"
proof -
  have p: "URL_Path (example_request ''/'') = ''/''" by (simp add: example_request_def)
  note f = wrap_fresh
  note t1 = ForwardToBackend_outcomes[OF p f,
      of "example_environ (\<lambda>_ _. Some ''net/http: invalid method'') (\<lambda>_. Inl [])" example_server
         "''net/http: invalid method''"]
  note t2 = ForwardToBackend_outcomes[OF p f,
      of "example_environ (\<lambda>_ _. None) (\<lambda>_. Inl ''connection refused'')" example_server
         "''connection refused''"]
  note t3 = ForwardToBackend_outcomes[OF p f,
      of "example_environ (\<lambda>_ _. None) (\<lambda>_. Inr example_response)" example_server
         _ example_response]
  have b0: "body (ResponseWriter (wrap new_response)) = []" "hdr (ResponseWriter (wrap new_response)) = Map.empty"
    by (simp_all add: wrap_def new_response_def)
  from t1 have 1: "statusCode (fst (state (ForwardToBackend (example_environ (\<lambda>_ _. Some ''net/http: invalid method'') (\<lambda>_. Inl []))
        (example_request ''/'') (wrap new_response) example_server))) = 500"
    "body (ResponseWriter (fst (state (ForwardToBackend
        (example_environ (\<lambda>_ _. Some ''net/http: invalid method'') (\<lambda>_. Inl []))
        (example_request ''/'') (wrap new_response) example_server))))
       = ''Error creating request: net/http: invalid method\<newline>''"
    by (simp_all add: example_environ_def b0 StatusInternalServerError_def)
  from t2 have 2: "statusCode (fst (state (ForwardToBackend (example_environ (\<lambda>_ _. None) (\<lambda>_. Inl ''connection refused''))
        (example_request ''/'') (wrap new_response) example_server))) = 503"
    "body (ResponseWriter (fst (state (ForwardToBackend
        (example_environ (\<lambda>_ _. None) (\<lambda>_. Inl ''connection refused''))
        (example_request ''/'') (wrap new_response) example_server))))
       = ''Error forwarding to backend: connection refused\<newline>''"
    by (simp_all add: example_environ_def b0 StatusServiceUnavailable_def)
  have h: "Add_all (resp_Header example_response) Map.empty = [''X-Served-By'' \<mapsto> [''backend-1'']]"
    by (simp add: example_response_def Add_all_def Header_Add_def)
  have pre: "NewRequest_error (example_environ (\<lambda>_ _. None) (\<lambda>_. Inr example_response))
               (Method (example_request ''/'')) (backendURL example_server) = None
             \<and> client_Do (example_environ (\<lambda>_ _. None) (\<lambda>_. Inr example_response))
                 (outbound_request (example_request ''/'') (backendURL example_server)) = Inr example_response
             \<and> final_code (StatusCode example_response)"
    using final_code_201 by (simp add: example_environ_def example_response_def)
  have l: "log_time (example_environ (\<lambda>_ _. None) (\<lambda>_. Inr example_response)) = ''2025/01/01 00:00:00''"
    by (simp add: example_environ_def)
  have x: "StatusCode example_response = 201" "resp_Body example_response = ''partial''"
    "copy_error example_response = Some ''unexpected EOF''" "stderr example_server = []"
    by (simp_all add: example_response_def example_server_def)
  from t3 pre have 3: "sent (ResponseWriter (fst (state (ForwardToBackend (example_environ (\<lambda>_ _. None) (\<lambda>_. Inr example_response))
        (example_request ''/'') (wrap new_response) example_server))))
       = Some (201, [''X-Served-By'' \<mapsto> [''backend-1'']])"
    "body (ResponseWriter (fst (state (ForwardToBackend (example_environ (\<lambda>_ _. None) (\<lambda>_. Inr example_response))
        (example_request ''/'') (wrap new_response) example_server)))) = ''partial''"
    "stderr (snd (state (ForwardToBackend (example_environ (\<lambda>_ _. None) (\<lambda>_. Inr example_response))
        (example_request ''/'') (wrap new_response) example_server)))
       = [''2025/01/01 00:00:00 Error copying response body: unexpected EOF\<newline>'']"
    unfolding b0 h l x by simp_all
  from pre have fc: "final_code (StatusCode example_response)" by blast
  show ?thesis by (intro conjI p f fc 1 2 3)
qed

text \<open>
  Claim C8, as stated, at two requests. The path \<^verbatim>\<open>//version\<close> is not in canonical form:
  the mux answers it with a redirect to \<^verbatim>\<open>/version\<close>, no handler and no middleware runs,
  and nothing is recorded under the key of the raw path. A request for \<^verbatim>\<open>/\<close> whose backend
  answers with status 099 makes the handler panic: the middleware is left before it
  records, the connection is closed, and the metrics are as before.
\<close>

theorem middleware_skipped_counterexample:
  "serve (example_environ (\<lambda>_ _. None) (\<lambda>_. Inr example_response))
      (example_request ''//version'') example_server
     = (MovedPermanently ''/version'', example_server)
   \<and> totalRequests (metrics (snd (serve (example_environ (\<lambda>_ _. None) (\<lambda>_. Inr example_response))
         (example_request ''//version'') example_server))) (cleanPath ''//version'') = None
   \<and> fst (serve (example_environ (\<lambda>_ _. None) (\<lambda>_. Inr bad_status_response))
         (example_request ''/'') example_server)
       = Aborted ''invalid WriteHeader code 99''
           \<lparr>hdr = [''X-Served-By'' \<mapsto> [''backend-1'']], sent_1xx = [], sent = None, body = []\<rparr>
   \<and> metrics (snd (serve (example_environ (\<lambda>_ _. None) (\<lambda>_. Inr bad_status_response))
         (example_request ''/'') example_server)) = metrics example_server
   \<and> totalRequests (metrics example_server) (cleanPath ''/'') = None"
proof -
  let ?env = "example_environ (\<lambda>_ _. None) (\<lambda>_. Inr example_response)"
  let ?bad = "example_environ (\<lambda>_ _. None) (\<lambda>_. Inr bad_status_response)"
  have r: "serve ?env (example_request ''//version'') example_server
           = (MovedPermanently ''/version'', example_server)"
    by (simp add: serve_def example_request_def Let_def canonical_examples)
  have k: "cleanPath ''//version'' = ''//version''" "cleanPath ''/'' = ''/''"
    by code_simp+
  have n: "totalRequests (metrics example_server) ''//version'' = None"
    "totalRequests (metrics example_server) ''/'' = None"
    by (simp_all add: example_server_def one_request_fields)
  have p: "URL_Path (example_request ''/'') = ''/''"
    by (simp add: example_request_def)
  have f: "ForwardToBackend ?bad (example_request ''/'') (wrap new_response) example_server
           = Panicked ''invalid WriteHeader code 99''
               (\<lparr>ResponseWriter =
                   \<lparr>hdr = [''X-Served-By'' \<mapsto> [''backend-1'']], sent_1xx = [], sent = None, body = []\<rparr>,
                 statusCode = 99\<rparr>,
                example_server)"
  proof -
    let ?w1 = "(wrap new_response)\<lparr>ResponseWriter := (ResponseWriter (wrap new_response))
               \<lparr>hdr := Add_all (resp_Header bad_status_response)
                          (hdr (ResponseWriter (wrap new_response)))\<rparr>\<rparr>"
    have nn: "NewRequest_error ?bad (Method (example_request ''/'')) (backendURL example_server) = None"
      and d: "client_Do ?bad (outbound_request (example_request ''/'') (backendURL example_server))
            = Inr bad_status_response"
      by (simp_all add: example_environ_def)
    have c: "StatusCode bad_status_response = 99"
      by (simp add: bad_status_response_def)
    have h: "Add_all (resp_Header bad_status_response) Map.empty = [''X-Served-By'' \<mapsto> [''backend-1'']]"
      by (simp add: bad_status_response_def Add_all_def Header_Add_def)
    have w1: "?w1 = \<lparr>ResponseWriter =
                     \<lparr>hdr = [''X-Served-By'' \<mapsto> [''backend-1'']], sent_1xx = [], sent = None, body = []\<rparr>,
                   statusCode = StatusOK\<rparr>"
      by (simp add: wrap_def new_response_def h)
    have wh: "WriteHeader ?w1 99 = Panicked (''invalid WriteHeader code '' @ fmt_d 99) (?w1\<lparr>statusCode := 99\<rparr>)"
      by (rule WriteHeader_invalid) (simp_all add: wrap_def new_response_def invalid_code_99)
    have "ForwardToBackend ?bad (example_request ''/'') (wrap new_response) example_server
           = Panicked (''invalid WriteHeader code '' @ fmt_d 99) (?w1\<lparr>statusCode := 99\<rparr>, example_server)"
      unfolding ForwardToBackend_response[OF p nn d] c wh by simp
    then show ?thesis unfolding fmt_d_99 w1 by simp
  qed
  have m: "mux (EscapedPath (example_request ''/'')) = Some ForwardToBackend"
    by (simp add: example_request_def mux_examples)
  have s: "serve ?bad (example_request ''/'') example_server =
      (Aborted ''invalid WriteHeader code 99''
         \<lparr>hdr = [''X-Served-By'' \<mapsto> [''backend-1'']], sent_1xx = [], sent = None, body = []\<rparr>,
       example_server\<lparr>stderr := stderr example_server
          @ [log_time ?bad @ '' http: panic serving '' @ RemoteAddr (example_request ''/'') @ '': ''
             @ ''invalid WriteHeader code 99'' @ ''\<newline>'' @ goroutine_stack ?bad @ ''\<newline>'']\<rparr>)"
    unfolding serve_dispatched[OF dispatched_examples(2) m]
      AccessLogMiddleware_Panicked[of ForwardToBackend ?bad "example_request ''/''" new_response
        example_server, OF f]
    by simp
  have a: "fst (serve ?bad (example_request ''/'') example_server)
       = Aborted ''invalid WriteHeader code 99''
           \<lparr>hdr = [''X-Served-By'' \<mapsto> [''backend-1'']], sent_1xx = [], sent = None, body = []\<rparr>"
    and b: "metrics (snd (serve ?bad (example_request ''/'') example_server)) = metrics example_server"
    unfolding s by simp_all
  have c: "totalRequests (metrics (snd (serve ?env (example_request ''//version'') example_server)))
             (cleanPath ''//version'') = None"
    unfolding r k using n by simp
  have e: "totalRequests (metrics example_server) (cleanPath ''/'') = None"
    unfolding k using n by simp
  show ?thesis by (intro conjI r c a b e)
qed

text \<open>
  Claim C8, amended. Whatever handler the middleware wraps, when that handler returns the
  middleware calls \<^verbatim>\<open>RecordRequest\<close> with the raw path of the request and the captured
  status, whatever the handler did with the request. So every request that the mux hands
  to a handler of \<^verbatim>\<open>main\<close> (its path is in canonical form) and whose handler returns is
  recorded under the key of its raw path. A path outside the five routes, such as
  \<^verbatim>\<open>/version/\<close>, is answered with 404 by the handler and still counted, under the key of its
  own path.
\<close>

theorem middleware_records_raw_path:
  fixes env :: "'f environ" and h :: "'f handler"
  shows
  "(next env r (wrap w) srv = Returned (rw', srv1) \<longrightarrow>
      AccessLogMiddleware next env r w srv
        = Returned (state (AccessLogMiddleware next env r w srv))
      \<and> fst (state (AccessLogMiddleware next env r w srv)) = ResponseWriter rw'
      \<and> metrics (snd (state (AccessLogMiddleware next env r w srv)))
          = RecordRequest (float64 env) (metrics srv1) (URL_Path r) (statusCode rw') (elapsed env))
   \<and> (dispatched r \<and> mux (EscapedPath r) = Some h
       \<and> h env r (wrap new_response) srv = Returned (rw', srv1) \<longrightarrow>
      fst (serve env r srv) = Reply (ResponseWriter rw')
      \<and> metrics (snd (serve env r srv))
          = RecordRequest (float64 env) (metrics srv) (URL_Path r) (statusCode rw') (elapsed env))
   \<and> (dispatched r \<and> URL_Path r \<notin> set served_routes \<longrightarrow>
      (\<exists>w'. fst (serve env r srv) = Reply w' \<and> status_sent w' = StatusNotFound)
      \<and> counter (totalRequests (metrics (snd (serve env r srv)))) (cleanPath (URL_Path r))
          = counter (totalRequests (metrics srv)) (cleanPath (URL_Path r)) + 1
      \<and> counter (codes_of (statusCodes (metrics (snd (serve env r srv)))) (cleanPath (URL_Path r)))
            StatusNotFound
          = counter (codes_of (statusCodes (metrics srv)) (cleanPath (URL_Path r))) StatusNotFound + 1)"
proof (intro conjI impI)
  assume a: "next env r (wrap w) srv = Returned (rw', srv1)"
  note e = AccessLogMiddleware_Returned[of "next" env r w srv rw' srv1, OF a]
  show "AccessLogMiddleware next env r w srv
        = Returned (state (AccessLogMiddleware next env r w srv))"
    "fst (state (AccessLogMiddleware next env r w srv)) = ResponseWriter rw'"
    "metrics (snd (state (AccessLogMiddleware next env r w srv)))
          = RecordRequest (float64 env) (metrics srv1) (URL_Path r) (statusCode rw') (elapsed env)"
    unfolding e by simp_all
next
  assume a: "dispatched r \<and> mux (EscapedPath r) = Some h
       \<and> h env r (wrap new_response) srv = Returned (rw', srv1)"
  then have d: "dispatched r" and m: "mux (EscapedPath r) = Some h"
    and h: "h env r (wrap new_response) srv = Returned (rw', srv1)"
    by blast+
  have s: "metrics srv1 = metrics srv"
    using mux_metrics[OF m, of env r "wrap new_response" srv] h by simp
  show "fst (serve env r srv) = Reply (ResponseWriter rw')"
    "metrics (snd (serve env r srv))
          = RecordRequest (float64 env) (metrics srv) (URL_Path r) (statusCode rw') (elapsed env)"
    unfolding serve_dispatched[OF d m]
      AccessLogMiddleware_Returned[of h env r new_response srv rw' srv1, OF h]
    by (simp_all add: s)
next
  assume a: "dispatched r \<and> URL_Path r \<notin> set served_routes"
  then have d: "dispatched r" and u: "URL_Path r \<notin> set served_routes" by blast+
  from d have "EscapedPath r \<noteq> []" by (simp add: dispatched_def)
  then obtain g :: "'f handler" where m: "mux (EscapedPath r) = Some g" using mux_total by blast
  let ?rw = "state (http_NotFound (wrap new_response))"
  have h: "g env r (wrap new_response) srv = Returned (?rw, srv)"
    unfolding guard_rejects[OF u m] http_NotFound_fresh by simp
  have c: "statusCode ?rw = StatusNotFound" "status_sent (ResponseWriter ?rw) = StatusNotFound"
    unfolding http_NotFound_fresh by (simp_all add: status_sent_def)
  have e: "serve env r srv =
      (Reply (ResponseWriter ?rw),
       srv\<lparr>stdout := stdout srv @ [access_line env r (statusCode ?rw) (elapsed env),
                                     RecordRequest_print (URL_Path r)],
           metrics := RecordRequest (float64 env) (metrics srv) (URL_Path r)
                        (statusCode ?rw) (elapsed env)\<rparr>)"
    unfolding serve_dispatched[OF d m]
      AccessLogMiddleware_Returned[of g env r new_response srv ?rw srv, OF h]
    by simp
  show "\<exists>w'. fst (serve env r srv) = Reply w' \<and> status_sent w' = StatusNotFound"
    unfolding e using c by simp
  show "counter (totalRequests (metrics (snd (serve env r srv)))) (cleanPath (URL_Path r))
          = counter (totalRequests (metrics srv)) (cleanPath (URL_Path r)) + 1"
    "counter (codes_of (statusCodes (metrics (snd (serve env r srv)))) (cleanPath (URL_Path r)))
            StatusNotFound
          = counter (codes_of (statusCodes (metrics srv)) (cleanPath (URL_Path r))) StatusNotFound + 1"
    unfolding e c by (simp_all add: RecordRequest_fields counter_def codes_of_def)
qed

theorem middleware_records_raw_path_witness:
  "dispatched (example_request ''/version/'')
   \<and> URL_Path (example_request ''/version/'') \<notin> set served_routes
   \<and> mux (EscapedPath (example_request ''/version/'')) = Some ForwardToBackend
   \<and> ForwardToBackend (example_environ (\<lambda>_ _. None) (\<lambda>_. Inr example_response))
         (example_request ''/version/'') (wrap new_response) example_server
       = Returned (state (http_NotFound (wrap new_response)), example_server)
   \<and> statusCode (state (http_NotFound (wrap new_response))) = 404
   \<and> fst (serve (example_environ (\<lambda>_ _. None) (\<lambda>_. Inr example_response))
        (example_request ''/version/'') example_server)
       = Reply (ResponseWriter (state (http_NotFound (wrap new_response))))
   \<and> counter (totalRequests (metrics (snd (serve (example_environ (\<lambda>_ _. None) (\<lambda>_. Inr example_response))
        (example_request ''/version/'') example_server)))) ''/version/'' = 1
   \<and> totalRequests (metrics (snd (serve (example_environ (\<lambda>_ _. None) (\<lambda>_. Inr example_response))
        (example_request ''/version/'') example_server))) ''/version'' = None"
proof -
  let ?env = "example_environ (\<lambda>_ _. None) (\<lambda>_. Inr example_response)"
  let ?r = "example_request ''/version/''"
  let ?rw = "state (http_NotFound (wrap new_response))"
  have p: "URL_Path ?r = ''/version/''" by (simp add: example_request_def)
  have d: "dispatched ?r" by (rule dispatched_examples)
  have u: "URL_Path ?r \<notin> set served_routes"
    by (simp add: p served_routes_def)
  have m: "mux (EscapedPath ?r) = Some ForwardToBackend"
    by (simp add: example_request_def mux_examples)
  have h: "ForwardToBackend ?env ?r (wrap new_response) example_server = Returned (?rw, example_server)"
    unfolding guard_rejects[OF u m] http_NotFound_fresh by simp
  have c: "statusCode ?rw = 404"
    unfolding http_NotFound_fresh by (simp add: StatusNotFound_def)
  note t = middleware_records_raw_path[of ForwardToBackend ?env ?r new_response example_server
      ?rw example_server ForwardToBackend]
  from t d m h have 1: "fst (serve ?env ?r example_server) = Reply (ResponseWriter ?rw)"
    and 2: "metrics (snd (serve ?env ?r example_server))
          = RecordRequest (float64 ?env) (metrics example_server) (URL_Path ?r) (statusCode ?rw)
              (elapsed ?env)"
    by blast+
  from t d u have "counter (totalRequests (metrics (snd (serve ?env ?r example_server)))) (cleanPath (URL_Path ?r))
          = counter (totalRequests (metrics example_server)) (cleanPath (URL_Path ?r)) + 1"
    by blast
  then have 3: "counter (totalRequests (metrics (snd (serve ?env ?r example_server)))) ''/version/'' = 1"
    unfolding p cleanPath_version_slash
    by (simp add: example_server_def one_request_fields counter_def)
  have 4: "totalRequests (metrics (snd (serve ?env ?r example_server))) ''/version'' = None"
    unfolding 2 p
    by (simp add: RecordRequest_fields cleanPath_version_slash example_server_def one_request_fields)
  show ?thesis by (intro conjI d u m h c 1 3 4)
qed

text \<open>
  Claim C9. In every state reached from \<^verbatim>\<open>NewMetrics\<close> by calls of \<^verbatim>\<open>RecordRequest\<close>, and for
  every key, the total-requests counter equals the sum of the key's status counters (which
  are finitely many) and the number of the key's durations, as 64-bit integers. So in a
  rendering of such a state the histogram count and the \<^verbatim>\<open>+Inf\<close> bucket of a key show the
  same value as its total-requests line.
\<close>

theorem metrics_counters_agree:
  "finite (dom (codes_of (statusCodes (record_all ops now calls)) k))
   \<and> counter (totalRequests (record_all ops now calls)) k
       = sum_codes (codes_of (statusCodes (record_all ops now calls)) k)
   \<and> counter (totalRequests (record_all ops now calls)) k
       = of_nat (length (durations_of (requestDurations (record_all ops now calls)) k))
   \<and> (range_valid ord (record_all ops now calls) \<longrightarrow>
        duration_count_of (GetPrometheusMetrics_lines ops ver t ord (record_all ops now calls)) k
          = requests_total_of (GetPrometheusMetrics_lines ops ver t ord (record_all ops now calls)) k
        \<and> inf_bucket_of (GetPrometheusMetrics_lines ops ver t ord (record_all ops now calls)) k
          = requests_total_of (GetPrometheusMetrics_lines ops ver t ord (record_all ops now calls)) k
        \<and> requests_total_of (GetPrometheusMetrics_lines ops ver t ord (record_all ops now calls)) k
          = (case totalRequests (record_all ops now calls) k of None \<Rightarrow> [] | Some v \<Rightarrow> [v]))"
proof -
  let ?M = "record_all ops now calls"
  have c: "consistent ?M k" by (rule consistent_record_all)
  then have l: "counter (totalRequests ?M) k = of_nat (length (durations_of (requestDurations ?M) k))"
    unfolding consistent_def by blast
  have d: "dom (requestDurations ?M) = dom (totalRequests ?M)"
    using record_all_doms[of ops now calls] by blast
  have e: "(case requestDurations ?M k of None \<Rightarrow> [] | Some ds \<Rightarrow> [of_nat (length ds) :: 64 word])
           = (case totalRequests ?M k of None \<Rightarrow> [] | Some v \<Rightarrow> [v])"
  proof (cases "totalRequests ?M k")
    case None
    then have "requestDurations ?M k = None" using d by (metis domIff)
    with None show ?thesis by simp
  next
    case (Some v)
    then obtain ds where ds: "requestDurations ?M k = Some ds" using d by (metis domIff not_Some_eq)
    with Some l show ?thesis by (simp add: counter_def durations_of_def)
  qed
  show ?thesis
    using c e unfolding consistent_def by (auto simp: rendered)
qed

theorem metrics_counters_agree_witness:
  "range_valid example_order two_requests
   \<and> counter (totalRequests two_requests) ''/a'' = 2
   \<and> sum_codes (codes_of (statusCodes two_requests) ''/a'') = 2
   \<and> length (durations_of (requestDurations two_requests) ''/a'') = 2
   \<and> requests_total_of (GetPrometheusMetrics_lines exact_float64 ''1.0.0'' 60 example_order two_requests) ''/a'' = [2]
   \<and> duration_count_of (GetPrometheusMetrics_lines exact_float64 ''1.0.0'' 60 example_order two_requests) ''/a'' = [2]
   \<and> inf_bucket_of (GetPrometheusMetrics_lines exact_float64 ''1.0.0'' 60 example_order two_requests) ''/a'' = [2]"
proof -
  note t = metrics_counters_agree[of exact_float64 0 "[(''/a'', 200, 3000000), (''/a'', 404, 30000000)]"
      "''/a''" example_order "''1.0.0''" 60, folded two_requests_def]
  have c: "counter (totalRequests two_requests) ''/a'' = 2"
    by (simp add: two_requests_fields counter_def)
  from t c have s: "sum_codes (codes_of (statusCodes two_requests) ''/a'') = 2"
    by simp
  have l: "length (durations_of (requestDurations two_requests) ''/a'') = 2"
    by (simp add: two_requests_fields durations_of_def)
  from t example_order_valid
  have r: "duration_count_of (GetPrometheusMetrics_lines exact_float64 ''1.0.0'' 60 example_order two_requests) ''/a''
          = requests_total_of (GetPrometheusMetrics_lines exact_float64 ''1.0.0'' 60 example_order two_requests) ''/a''"
    "inf_bucket_of (GetPrometheusMetrics_lines exact_float64 ''1.0.0'' 60 example_order two_requests) ''/a''
          = requests_total_of (GetPrometheusMetrics_lines exact_float64 ''1.0.0'' 60 example_order two_requests) ''/a''"
    "requests_total_of (GetPrometheusMetrics_lines exact_float64 ''1.0.0'' 60 example_order two_requests) ''/a''
          = (case totalRequests two_requests ''/a'' of None \<Rightarrow> [] | Some v \<Rightarrow> [v])"
    by blast+
  have q: "requests_total_of (GetPrometheusMetrics_lines exact_float64 ''1.0.0'' 60 example_order two_requests) ''/a'' = [2]"
    unfolding r(3) by (simp add: two_requests_fields)
  show ?thesis
    using example_order_valid c s l q r(1,2) by simp
qed

text \<open>
  Claim C10. \<^verbatim>\<open>RecordRequest\<close> of a path changes no entry of the three maps at a key other
  than the key of that path. It does not change the start timestamp, which therefore is
  the one set by \<^verbatim>\<open>NewMetrics\<close> after any number of calls; serving a request does not change
  it either.
\<close>

theorem RecordRequest_frame:
  "(k \<noteq> cleanPath p \<longrightarrow>
      totalRequests (RecordRequest ops m p c d) k = totalRequests m k
      \<and> statusCodes (RecordRequest ops m p c d) k = statusCodes m k
      \<and> requestDurations (RecordRequest ops m p c d) k = requestDurations m k)
   \<and> appStartTimestamp (RecordRequest ops m p c d) = appStartTimestamp m
   \<and> appStartTimestamp (record_all ops now calls) = now
   \<and> appStartTimestamp (metrics (snd (serve env r srv))) = appStartTimestamp (metrics srv)"
proof -
  have "appStartTimestamp (record_all ops now calls) = now"
  proof (induction calls rule: rev_induct)
    case Nil show ?case by (simp add: record_all_Nil NewMetrics_def)
  next
    case (snoc x calls)
    obtain p c d where x: "x = (p, c, d)" by (cases x)
    from snoc show ?case unfolding x record_all_snoc by (simp add: RecordRequest_fields)
  qed
  moreover have "appStartTimestamp (metrics (snd (serve env r srv))) = appStartTimestamp (metrics srv)"
    by (rule serve_timestamp)
  ultimately show ?thesis by (simp add: RecordRequest_fields)
qed

theorem RecordRequest_frame_witness:
  "''/b'' \<noteq> cleanPath ''/a''
   \<and> totalRequests (RecordRequest exact_float64 one_request ''/a'' 404 30000000) ''/b'' = None
   \<and> totalRequests (RecordRequest exact_float64 (RecordRequest exact_float64 one_request ''/b'' 200 1000)
         ''/a'' 404 30000000) ''/b'' = Some 1
   \<and> appStartTimestamp (RecordRequest exact_float64 one_request ''/a'' 404 30000000) = 0
   \<and> appStartTimestamp two_requests = 0
   \<and> appStartTimestamp (metrics (snd (serve (example_environ (\<lambda>_ _. None) (\<lambda>_. Inr example_response))
         (example_request ''/metrics'') example_server))) = 0"
proof -
  have n: "''/b'' \<noteq> cleanPath ''/a''" by (simp add: cleanPath_a)
  note f1 = RecordRequest_frame[of "''/b''" "''/a''" exact_float64 one_request 404 30000000 0 "[]"
      "example_environ (\<lambda>_ _. None) (\<lambda>_. Inr example_response)" "example_request ''/metrics''"
      example_server]
  note f2 = RecordRequest_frame[of "''/b''" "''/a''" exact_float64
      "RecordRequest exact_float64 one_request ''/b'' 200 1000" 404 30000000 0
      "[(''/a'', 200, 3000000), (''/a'', 404, 30000000)]"
      "example_environ (\<lambda>_ _. None) (\<lambda>_. Inr example_response)" "example_request ''/metrics''"
      example_server]
  from f1 n have a: "totalRequests (RecordRequest exact_float64 one_request ''/a'' 404 30000000) ''/b'' = None"
    by (simp add: one_request_fields)
  from f2 n have b: "totalRequests (RecordRequest exact_float64 (RecordRequest exact_float64 one_request ''/b'' 200 1000)
         ''/a'' 404 30000000) ''/b'' = Some 1"
    by (simp add: RecordRequest_totalRequests[of _ one_request] cleanPath_b one_request_fields counter_def)
  from f1 have c: "appStartTimestamp (RecordRequest exact_float64 one_request ''/a'' 404 30000000) = 0"
    by (simp add: one_request_fields)
  from f2 have d: "appStartTimestamp two_requests = 0"
    by (simp add: two_requests_def)
  from f1 have e: "appStartTimestamp (metrics (snd (serve (example_environ (\<lambda>_ _. None) (\<lambda>_. Inr example_response))
         (example_request ''/metrics'') example_server))) = 0"
    by (simp add: example_server_def one_request_fields)
  show ?thesis by (intro conjI n a b c d e)
qed

end
